theory Spec2Isabelle
  imports Main "HOL-Library.Sublist"
begin

section \<open>Decorated controller dispatch (tg/controllers/decoratedcontroller.py)\<close>

text \<open>
  A shallow embedding of the methods of \<^verbatim>\<open>DecoratedController\<close>: the validation runner
  \<^verbatim>\<open>_perform_validate\<close>, the error classifier \<^verbatim>\<open>_process_validation_errors\<close>, the
  renderer \<^verbatim>\<open>_render_response\<close>, the security checker \<^verbatim>\<open>_check_security\<close> and the
  orchestrator \<^verbatim>\<open>_call\<close>. Python attribute mutation is explicit state passing on a
  context record, a raised exception is the left injection of a sum, and the \<^verbatim>\<open>while\<close>
  loop of the orchestrator, which need not terminate, returns an option.
\<close>

subsection \<open>Python values and strings\<close>

text \<open>
  The values that flow through the dispatcher. A \<^verbatim>\<open>dict\<close> with string keys is a map;
  \<^verbatim>\<open>isinstance(v, dict)\<close> is the test for the constructor \<open>PyDict\<close>.
\<close>

datatype pyval =
    PyNone
  | PyStr string
  | PyInt int
  | PyList "pyval list"
  | PyDict "string \<Rightarrow> pyval option"

type_synonym params = "string \<Rightarrow> pyval option"

fun isinstance_dict :: "pyval \<Rightarrow> bool" where
  "isinstance_dict (PyDict d) = True"
| "isinstance_dict v = False"

text \<open>\<^verbatim>\<open>s.split(sep)\<close> for a one-character separator: n separators give n + 1 parts.\<close>

fun py_split :: "char \<Rightarrow> string \<Rightarrow> string list" where
  "py_split sep [] = [[]]"
| "py_split sep (c # cs) =
     (if c = sep then [] # py_split sep cs
      else (case py_split sep cs of
              [] \<Rightarrow> [[c]]
            | part # parts \<Rightarrow> (c # part) # parts))"

text \<open>\<^verbatim>\<open>s.split(sep, 1)\<close>: at most one split, at the first separator.\<close>

definition py_split1 :: "char \<Rightarrow> string \<Rightarrow> string list" where
  "py_split1 sep s =
     (if sep \<in> set s
      then [takeWhile (\<lambda>c. c \<noteq> sep) s, tl (dropWhile (\<lambda>c. c \<noteq> sep) s)]
      else [s])"

text \<open>
  \<^verbatim>\<open>str.isspace\<close> on the code points below 256 (tab, line feed, vertical tab, form feed,
  carriage return, the four separators 0x1C to 0x1F, space, NEL and the no-break space).
\<close>

definition isspace :: "char \<Rightarrow> bool" where
  "isspace c \<longleftrightarrow> c \<in> set [CHR 0x09, CHR 0x0A, CHR 0x0B, CHR 0x0C, CHR 0x0D,
                          CHR 0x1C, CHR 0x1D, CHR 0x1E, CHR 0x1F, CHR 0x20,
                          CHR 0x85, CHR 0xA0]"

text \<open>\<^verbatim>\<open>strip_string = operator.methodcaller('strip')\<close>\<close>

definition strip_string :: "string \<Rightarrow> string" where
  "strip_string s = rev (dropWhile isspace (rev (dropWhile isspace s)))"

text \<open>\<^verbatim>\<open>needle in haystack\<close> and \<^verbatim>\<open>s.startswith(p)\<close> on strings.\<close>

definition py_in :: "string \<Rightarrow> string \<Rightarrow> bool" where
  "py_in needle haystack = sublist needle haystack"

definition startswith :: "string \<Rightarrow> string \<Rightarrow> bool" where
  "startswith s p = prefix p s"

subsection \<open>Controllers, validation failures and the validation status\<close>

text \<open>
  A controller is a Python callable: a method bound to its instance, or a plain
  function (an error handler is given as a function). Functions carry the decoration,
  so the decoration is looked up by the function's identity.
\<close>

type_synonym func = nat
type_synonym instance_id = nat
type_synonym intent = nat

datatype callable = Method instance_id func | Function func

text \<open>
  Modelled from the spec: \<^verbatim>\<open>im_self\<close> and \<^verbatim>\<open>default_im_func\<close> of \<^verbatim>\<open>tg._compat\<close> are
  not among the sources. \<^verbatim>\<open>im_self\<close> is the owning instance of a bound method (None for
  a function) and \<^verbatim>\<open>default_im_func\<close> is "the controller's underlying function" (a
  function is its own).
\<close>

fun im_self :: "callable \<Rightarrow> instance_id option" where
  "im_self (Method inst f) = Some inst"
| "im_self (Function f) = None"

fun default_im_func :: "callable \<Rightarrow> callable" where
  "default_im_func (Method inst f) = Function f"
| "default_im_func (Function f) = Function f"

fun func_of :: "callable \<Rightarrow> func" where
  "func_of (Method inst f) = f"
| "func_of (Function f) = f"

text \<open>
  The three shapes of validation failure that the classifier tells apart. The
  widget-style failure is given with the result of \<^verbatim>\<open>_navigate_tw2form_children\<close> on
  \<^verbatim>\<open>widget.child\<close>, a sequence of (compound key, error message) leaves, and with
  \<^verbatim>\<open>widget.child.value\<close>; the structured one with its \<^verbatim>\<open>error_dict\<close> and \<^verbatim>\<open>value\<close>;
  any other with its string form and its \<^verbatim>\<open>value\<close> attribute when it has one.
\<close>

datatype validation_error =
    Tw2ValidationError "(string \<times> string) list" pyval
  | TGValidationError "string \<Rightarrow> string option" pyval
  | Invalid string "pyval option"

datatype exc =
    ValidationErr validation_error
  | KeyError string
  | HTTPException int string
  | OtherError string

text \<open>
  Modelled from the spec: the class \<^verbatim>\<open>_ValidationStatus\<close> of \<^verbatim>\<open>tg.validation\<close> is not
  among the sources. It is the "per-request mutable record: current validation intent,
  accumulated field to error-message map, cleaned/raw value map, selected
  error-handler method, flag for chained re-validation", created fresh per request
  with an empty error map.
\<close>

record validation_status =
  intent :: "intent option"
  errors :: "string \<Rightarrow> string option"
  status_values :: pyval
  exception :: "validation_error option"
  error_handler :: "callable option"
  chain_validation :: bool

definition new_validation_status :: validation_status where
  "new_validation_status =
     \<lparr>intent = None, errors = Map.empty, status_values = PyDict Map.empty, exception = None,
      error_handler = None, chain_validation = False\<rparr>"

subsection \<open>The request context and the collaborators\<close>

text \<open>
  The result of \<^verbatim>\<open>_render_response\<close>, a dict with these four keys.
\<close>

record render_result =
  response :: pyval
  content_type :: "string option"
  engine_name :: "string option"
  template_name :: "string option"

text \<open>
  The calls that the dispatcher makes to its collaborators are recorded, in order, in
  a log: \<^verbatim>\<open>hooks.notify\<close>, \<^verbatim>\<open>get_params_with_argspec\<close>, the \<^verbatim>\<open>check\<close> of a validation
  intent, the decoration's \<^verbatim>\<open>controller_caller\<close>, \<^verbatim>\<open>tg_render\<close> and \<^verbatim>\<open>flash\<close>, each with
  the arguments it is given.
\<close>

datatype bound_callable = Bound callable | Partial callable "instance_id option"

datatype hook_args =
    ArgsValidate "string list" params
  | ArgsRender "string list" params pyval
  | ArgsResponse render_result

datatype event =
    Notify string hook_args callable
  | GetParams callable params "string list"
  | Check intent callable params
  | Caller callable bound_callable "string list" params
  | Render params "string option" "string option" params
  | Flash string string

text \<open>
  The response (\<^verbatim>\<open>resp.content_type\<close>, \<^verbatim>\<open>resp.headers\<close>, \<^verbatim>\<open>resp.status\<close>), the part of
  \<^verbatim>\<open>request.environ\<close> that the dispatcher reads (whether \<^verbatim>\<open>paste.testing\<close> is a key,
  and the dict under \<^verbatim>\<open>paste.testing_variables\<close> when there is one; \<open>auth\<close> stands for
  everything else, which only the authorization predicates read), and the context
  that holds them with the validation status, \<^verbatim>\<open>request.args_params\<close> and the log.
\<close>

record resp =
  resp_content_type :: "string option"
  headers :: "string \<Rightarrow> string option"
  status :: "int option"

record 'a environ =
  paste_testing :: bool
  paste_testing_variables :: "(string \<Rightarrow> pyval option) option"
  auth :: 'a

record 'a tg_locals =
  validation :: validation_status
  args_params :: "params option"
  request_environ :: "'a environ"
  tg_response :: resp
  log :: "event list"

text \<open>
  The collaborators, as parameters of the model. The decoration of a controller is
  looked up by its function: \<open>validations\<close>, \<open>lookup_template_engine\<close> and
  \<open>controller_caller\<close> are the decoration's. The \<open>check\<close> of an intent runs with the
  request's validation status at hand (it is where a failing intent leaves its error
  handler and chain flag), so it is a transformer of the status that returns the
  cleaned parameters or raises; \<open>controller_caller\<close> runs the controller, which may
  write the response. \<open>get_params_with_argspec\<close>, \<open>flatten_arguments\<close> (crank) and
  \<open>url2pathname\<close> are functions of their arguments; \<open>not_anonymous_is_met\<close> is
  \<^verbatim>\<open>not_anonymous().is_met\<close>.
\<close>

record 'a env =
  validations :: "func \<Rightarrow> intent list"
  check :: "intent \<Rightarrow> callable \<Rightarrow> params \<Rightarrow> validation_status
              \<Rightarrow> (exc + params) \<times> validation_status"
  lookup_template_engine :: "func \<Rightarrow> 'a tg_locals
              \<Rightarrow> string option \<times> string option \<times> string option \<times> string list \<times> params"
  controller_caller :: "func \<Rightarrow> bound_callable \<Rightarrow> string list \<Rightarrow> params \<Rightarrow> resp
              \<Rightarrow> (exc + pyval) \<times> resp"
  tg_render :: "params \<Rightarrow> string option \<Rightarrow> string option \<Rightarrow> params \<Rightarrow> exc + string"
  get_params_with_argspec :: "callable \<Rightarrow> params \<Rightarrow> string list \<Rightarrow> params"
  flatten_arguments :: "callable \<Rightarrow> params \<Rightarrow> string list \<Rightarrow> string list \<times> params"
  url2pathname :: "string \<Rightarrow> string"
  not_anonymous_is_met :: "'a environ \<Rightarrow> bool"

definition hooks_notify :: "string \<Rightarrow> hook_args \<Rightarrow> callable \<Rightarrow> 'a tg_locals \<Rightarrow> 'a tg_locals" where
  "hooks_notify name args controller ctx = ctx\<lparr>log := log ctx @ [Notify name args controller]\<rparr>"

subsection \<open>The validation runner\<close>

text \<open>
  The body of \<^verbatim>\<open>for validation_intent in validations\<close>: the intent is stored in the
  status, then checked on the parameters validated so far; an exception of the check
  leaves the loop.
\<close>

fun run_intents ::
  "'a env \<Rightarrow> callable \<Rightarrow> intent list \<Rightarrow> params \<Rightarrow> 'a tg_locals \<Rightarrow> (exc + params) \<times> 'a tg_locals" where
  "run_intents E controller [] validated_params ctx = (Inr validated_params, ctx)"
| "run_intents E controller (validation_intent # rest) validated_params ctx =
     (let vs = (validation ctx)\<lparr>intent := Some validation_intent\<rparr>;
          (r, vs') = check E validation_intent controller validated_params vs;
          ctx' = ctx\<lparr>validation := vs',
                     log := log ctx @ [Check validation_intent controller validated_params]\<rparr>
      in (case r of
            Inl e \<Rightarrow> (Inl e, ctx')
          | Inr validated_params' \<Rightarrow> run_intents E controller rest validated_params' ctx'))"

definition perform_validate ::
  "'a env \<Rightarrow> callable \<Rightarrow> params \<Rightarrow> 'a tg_locals \<Rightarrow> (exc + params) \<times> 'a tg_locals" where
  "perform_validate E controller ps ctx =
     (let vals = validations E (func_of controller)
      in if vals = [] then (Inr ps, ctx)
         else run_intents E controller vals ps ctx)"

subsection \<open>The error classifier\<close>

text \<open>
  One iteration of the loop over \<^verbatim>\<open>error_list\<close>: the line is split at its first
  colon, both parts are stripped, and the status's error map is assigned at the field
  (at \<^verbatim>\<open>_the_form\<close> when there is no colon).
\<close>

definition record_error :: "(string \<Rightarrow> string option) \<Rightarrow> string \<Rightarrow> (string \<Rightarrow> string option)" where
  "record_error errs error =
     (let field_value = map strip_string (py_split1 CHR '':'' error)
      in if length field_value = 1
         then errs(''_the_form'' \<mapsto> field_value ! 0)
         else errs(field_value ! 0 \<mapsto> field_value ! 1))"

text \<open>
  \<^verbatim>\<open>_process_validation_errors(cls, controller, remainder, params, exception, context)\<close>:
  it returns the triple (instance, error handler, chain flag) and the context, whose
  validation status it has updated.
\<close>

definition process_validation_errors ::
  "callable \<Rightarrow> string list \<Rightarrow> params \<Rightarrow> validation_error \<Rightarrow> 'a tg_locals
     \<Rightarrow> (instance_id option \<times> callable \<times> bool) \<times> 'a tg_locals" where
  "process_validation_errors controller remainder ps ex ctx =
     (let vs1 = (validation ctx)\<lparr>exception := Some ex\<rparr>;
          vs2 = (case ex of
                   Tw2ValidationError widget_children child_value \<Rightarrow>
                     vs1\<lparr>errors := map_of (rev widget_children), status_values := child_value\<rparr>
                 | TGValidationError error_dict val \<Rightarrow>
                     vs1\<lparr>errors := error_dict, status_values := val\<rparr>
                 | Invalid msg val \<Rightarrow>
                     vs1\<lparr>errors := foldl record_error (errors vs1) (py_split CHR 0x0A msg),
                         status_values := (case val of None \<Rightarrow> PyDict Map.empty | Some v \<Rightarrow> v)\<rparr>);
          ctx' = ctx\<lparr>validation := vs2\<rparr>
      in (case error_handler vs2 of
            None \<Rightarrow> ((im_self controller, default_im_func controller, False), ctx')
          | Some handler \<Rightarrow> ((im_self controller, handler, chain_validation vs2), ctx')))"

subsection \<open>The response renderer\<close>

text \<open>\<^verbatim>\<open>for name in exclude_names: namespace.pop(name, None)\<close>\<close>

definition pop_all :: "params \<Rightarrow> string list \<Rightarrow> params" where
  "pop_all namespace exclude_names = foldl (\<lambda>ns name. ns(name := None)) namespace exclude_names"

definition opt_str :: "string option \<Rightarrow> pyval" where
  "opt_str s = (case s of None \<Rightarrow> PyNone | Some t \<Rightarrow> PyStr t)"

definition render_response ::
  "'a env \<Rightarrow> 'a tg_locals \<Rightarrow> callable \<Rightarrow> pyval \<Rightarrow> (exc + render_result) \<times> 'a tg_locals" where
  "render_response E tgl controller resp_value =
     (case lookup_template_engine E (func_of controller) tgl of
        (engine_content_type, eng_name, tmpl_name, exclude_names, render_params) \<Rightarrow>
       let result = \<lparr>response = resp_value, content_type = engine_content_type,
                     engine_name = eng_name, template_name = tmpl_name\<rparr>;
           rsp = tg_response tgl;
           rsp' = (case (resp_content_type rsp, engine_content_type) of
                     (None, Some ect) \<Rightarrow>
                       let rsp1 = rsp\<lparr>headers := (headers rsp)(''Content-Type'' \<mapsto> ect)\<rparr>;
                           ctype = ect
                       in if \<not> py_in ''charset'' ctype \<and>
                             (startswith ctype ''text'' \<or>
                              ctype \<in> set [''application/xhtml+xml'', ''application/xml'',
                                          ''application/json''])
                          then rsp1\<lparr>resp_content_type := Some (ctype @ ''; charset=utf-8'')\<rparr>
                          else rsp1
                   | _ \<Rightarrow> rsp);
           tgl1 = tgl\<lparr>tg_response := rsp'\<rparr>
       in (case resp_value of
             PyDict d \<Rightarrow>
               let namespace = pop_all d exclude_names;
                   req_env = request_environ tgl1
               in if paste_testing req_env \<and> paste_testing_variables req_env = None
                  then (Inl (KeyError ''paste.testing_variables''), tgl1)
                  else
                    let tgl2 =
                          (if paste_testing req_env
                           then tgl1\<lparr>request_environ := req_env\<lparr>paste_testing_variables :=
                                  map_option (\<lambda>tv. tv(''namespace'' \<mapsto> PyDict namespace,
                                                      ''template_name'' \<mapsto> opt_str tmpl_name,
                                                      ''exclude_names'' \<mapsto> PyList (map PyStr exclude_names),
                                                      ''render_params'' \<mapsto> PyDict render_params,
                                                      ''controller_output'' \<mapsto> PyDict namespace))
                                    (paste_testing_variables req_env)\<rparr>\<rparr>
                           else tgl1);
                        tgl3 = tgl2\<lparr>log := log tgl2 @ [Render namespace eng_name tmpl_name render_params]\<rparr>
                    in (case tg_render E namespace eng_name tmpl_name render_params of
                          Inl e \<Rightarrow> (Inl e, tgl3)
                        | Inr rendered \<Rightarrow> (Inr (result\<lparr>response := PyStr rendered\<rparr>), tgl3))
           | _ \<Rightarrow> (Inr result, tgl1)))"

subsection \<open>The security checker\<close>

text \<open>
  The \<^verbatim>\<open>allow_only\<close> attribute of the controller is a full requirement (it has a
  \<^verbatim>\<open>predicate\<close> attribute; its \<^verbatim>\<open>_check_authorization\<close> builds the response itself and
  may raise) or a bare predicate, whose \<^verbatim>\<open>check_authorization(environ)\<close> raises
  \<^verbatim>\<open>NotAuthorizedError\<close> with a reason (here: returns the reason) or returns. The
  optional \<^verbatim>\<open>_failed_authorization\<close> hook of the controller is user code: it may raise.
\<close>

datatype 'a requirement =
    Requirement "'a tg_locals \<Rightarrow> exc option \<times> 'a tg_locals"
  | Predicate "'a environ \<Rightarrow> string option"

record 'a controller_obj =
  allow_only :: "'a requirement option"
  failed_authorization :: "(string \<Rightarrow> 'a tg_locals \<Rightarrow> exc option \<times> 'a tg_locals) option"

text \<open>
  \<^verbatim>\<open>_check_security(self)\<close>. It returns True, or None when a bare predicate is met (the
  method then ends without a \<^verbatim>\<open>return\<close>); \<^verbatim>\<open>abort\<close> raises the HTTP exception.
\<close>

definition check_security ::
  "'a env \<Rightarrow> 'a controller_obj \<Rightarrow> 'a tg_locals \<Rightarrow> (exc + bool option) \<times> 'a tg_locals" where
  "check_security E self ctx =
     (case allow_only self of
        None \<Rightarrow> (Inr (Some True), ctx)
      | Some (Requirement check_auth) \<Rightarrow>
          (case check_auth ctx of
             (Some e, ctx') \<Rightarrow> (Inl e, ctx')
           | (None, ctx') \<Rightarrow> (Inr (Some True), ctx'))
      | Some (Predicate check_authorization) \<Rightarrow>
          (case check_authorization (request_environ ctx) of
             None \<Rightarrow> (Inr None, ctx)
           | Some reason \<Rightarrow>
               (case (case failed_authorization self of
                        None \<Rightarrow> (None, ctx)
                      | Some hook \<Rightarrow> hook reason ctx) of
                  (Some e, ctx1) \<Rightarrow> (Inl e, ctx1)
                | (None, ctx1) \<Rightarrow>
                    let (code, severity) =
                          (if not_anonymous_is_met E (request_environ ctx1)
                           then (403, ''error'') else (401, ''warning''));
                        ctx2 = ctx1\<lparr>tg_response := (tg_response ctx1)\<lparr>status := Some code\<rparr>\<rparr>;
                        ctx3 = ctx2\<lparr>log := log ctx2 @ [Flash reason severity]\<rparr>
                    in (Inl (HTTPException code reason), ctx3))))"

subsection \<open>The dispatch orchestrator\<close>

text \<open>
  The \<^verbatim>\<open>while chain_validation\<close> loop of \<^verbatim>\<open>_call\<close>. Its state is the triple
  (instance, error handler, chain flag), the current \<^verbatim>\<open>params\<close> and the context;
  \<^verbatim>\<open>validate_params\<close> and \<^verbatim>\<open>remainder\<close> do not change. An exception that is not a
  validation failure leaves the loop and the dispatch. The loop need not end: the
  result None is a loop that runs forever.
\<close>

partial_function (option) chain_loop ::
  "'a env \<Rightarrow> params \<Rightarrow> string list \<Rightarrow> instance_id option \<times> callable \<times> bool \<Rightarrow> params
     \<Rightarrow> 'a tg_locals \<Rightarrow> ((exc + instance_id option \<times> callable \<times> params) \<times> 'a tg_locals) option" where
  "chain_loop E validate_params remainder st ps ctx =
     (case st of (inst, handler, chain) \<Rightarrow>
        if chain then
          (case perform_validate E handler validate_params ctx of
             (Inr ps', ctx') \<Rightarrow>
               chain_loop E validate_params remainder (inst, handler, False) ps' ctx'
           | (Inl (ValidationErr invalid), ctx') \<Rightarrow>
               (case process_validation_errors handler remainder ps invalid ctx' of
                  (st', ctx'') \<Rightarrow> chain_loop E validate_params remainder st' ps ctx'')
           | (Inl e, ctx') \<Rightarrow> Some (Inl e, ctx'))
        else Some (Inr (inst, handler, ps), ctx))"

text \<open>
  The end of \<^verbatim>\<open>_call\<close>, after the \<^verbatim>\<open>try\<close> statement: the \<^verbatim>\<open>before_call\<close> hook, the
  invocation through the decoration's caller, the \<^verbatim>\<open>before_render\<close> hook, rendering,
  the \<^verbatim>\<open>after_render\<close> hook; the value returned is \<^verbatim>\<open>response['response']\<close>.
\<close>

definition invoke_and_render ::
  "'a env \<Rightarrow> callable \<Rightarrow> bound_callable \<Rightarrow> string list \<Rightarrow> params \<Rightarrow> 'a tg_locals
     \<Rightarrow> (exc + pyval) \<times> 'a tg_locals" where
  "invoke_and_render E action bound_controller_callable remainder ps ctx =
     (let ctx1 = hooks_notify ''before_call'' (ArgsValidate remainder ps) action ctx;
          (r, rsp) = controller_caller E (func_of action) bound_controller_callable remainder ps
                       (tg_response ctx1);
          ctx2 = ctx1\<lparr>tg_response := rsp,
                     log := log ctx1 @ [Caller action bound_controller_callable remainder ps]\<rparr>
      in (case r of
            Inl e \<Rightarrow> (Inl e, ctx2)
          | Inr output \<Rightarrow>
              let ctx3 = hooks_notify ''before_render'' (ArgsRender remainder ps output) action ctx2
              in (case render_response E ctx3 action output of
                    (Inl e, ctx4) \<Rightarrow> (Inl e, ctx4)
                  | (Inr result, ctx4) \<Rightarrow>
                      (Inr (response result),
                       hooks_notify ''after_render'' (ArgsResponse result) action ctx4))))"

text \<open>
  \<^verbatim>\<open>_call(self, action, params, remainder, context)\<close>; \<^verbatim>\<open>remainder\<close> may be None.
\<close>

definition call ::
  "'a env \<Rightarrow> callable \<Rightarrow> params \<Rightarrow> string list option \<Rightarrow> 'a tg_locals
     \<Rightarrow> ((exc + pyval) \<times> 'a tg_locals) option" where
  "call E action ps remainder0 context0 =
     (let ctx1 = context0\<lparr>validation := new_validation_status\<rparr>;
          resp_headers = headers (tg_response ctx1);
          ctx2 = (if resp_headers ''Content-Type'' = None \<or> resp_headers ''Content-Type'' = Some []
                  then ctx1\<lparr>tg_response :=
                         (tg_response ctx1)\<lparr>headers := resp_headers(''Content-Type'' := None)\<rparr>\<rparr>
                  else ctx1);
          remainder = (case remainder0 of
                         None \<Rightarrow> []
                       | Some segments \<Rightarrow> map (url2pathname E) segments);
          ctx3 = hooks_notify ''before_validate'' (ArgsValidate remainder ps) action ctx2;
          validate_params = get_params_with_argspec E action ps remainder;
          ctx4 = ctx3\<lparr>args_params := Some validate_params,
                     log := log ctx3 @ [GetParams action ps remainder]\<rparr>
      in (case perform_validate E action validate_params ctx4 of
            (Inl (ValidationErr invalid), ctx5) \<Rightarrow>
              (case process_validation_errors action remainder ps invalid ctx5 of
                 (st, ctx6) \<Rightarrow>
                   (case chain_loop E validate_params remainder st ps ctx6 of
                      None \<Rightarrow> None
                    | Some (Inl e, ctx7) \<Rightarrow> Some (Inl e, ctx7)
                    | Some (Inr (inst, handler, ps'), ctx7) \<Rightarrow>
                        Some (invoke_and_render E handler (Partial handler inst) remainder ps' ctx7)))
          | (Inl e, ctx5) \<Rightarrow> Some (Inl e, ctx5)
          | (Inr ps', ctx5) \<Rightarrow>
              let ctx6 = ctx5\<lparr>validation := (validation ctx5)\<lparr>status_values := PyDict ps'\<rparr>\<rparr>;
                  (remainder', ps'') = flatten_arguments E action ps' remainder
              in Some (invoke_and_render E action (Bound action) remainder' ps'' ctx6)))"

text \<open>
  Names for two values of \<^verbatim>\<open>_call\<close> at the point where it enters the \<^verbatim>\<open>try\<close> statement:
  the decoded \<^verbatim>\<open>remainder\<close>, and the context after the reset of the validation status,
  the clean-up of the Content-Type header, the \<^verbatim>\<open>before_validate\<close> notification and the
  merge of the parameters.
\<close>

definition decoded_remainder :: "'a env \<Rightarrow> string list option \<Rightarrow> string list" where
  "decoded_remainder E remainder0 =
     (case remainder0 of None \<Rightarrow> [] | Some segments \<Rightarrow> map (url2pathname E) segments)"

definition context_before_validation ::
  "'a env \<Rightarrow> callable \<Rightarrow> params \<Rightarrow> string list option \<Rightarrow> 'a tg_locals \<Rightarrow> 'a tg_locals" where
  "context_before_validation E action ps remainder0 context0 =
     (let ctx1 = context0\<lparr>validation := new_validation_status\<rparr>;
          ctx2 = (if headers (tg_response ctx1) ''Content-Type'' = None
                     \<or> headers (tg_response ctx1) ''Content-Type'' = Some []
                  then ctx1\<lparr>tg_response := (tg_response ctx1)
                         \<lparr>headers := (headers (tg_response ctx1))(''Content-Type'' := None)\<rparr>\<rparr>
                  else ctx1);
          remainder = decoded_remainder E remainder0
      in ctx2\<lparr>args_params := Some (get_params_with_argspec E action ps remainder),
              log := log ctx2 @ [Notify ''before_validate'' (ArgsValidate remainder ps) action,
                                 GetParams action ps remainder]\<rparr>)"

subsection \<open>The error map of a generic failure, as specified\<close>

text \<open>
  The classification of one line in the words of the specification: the field key and
  the message are the stripped parts before and after the first colon; a line without
  a colon is a whole-form error under the reserved key.
\<close>

definition line_entry :: "string \<Rightarrow> string \<times> string" where
  "line_entry line =
     (if CHR '':'' \<in> set line
      then (strip_string (takeWhile (\<lambda>c. c \<noteq> CHR '':'') line),
            strip_string (tl (dropWhile (\<lambda>c. c \<noteq> CHR '':'') line)))
      else (''_the_form'', strip_string line))"

subsection \<open>Left-to-right threading of validation intents, as specified\<close>

text \<open>
  One intent applied to the outcome so far: a failure is passed on unchanged (the
  exception has left the runner); otherwise the intent is stored in the status and
  its check receives the parameters cleaned so far. The validations compose left to
  right from the incoming parameters.
\<close>

definition apply_intent ::
  "'a env \<Rightarrow> callable \<Rightarrow> (exc + params) \<times> 'a tg_locals \<Rightarrow> intent \<Rightarrow> (exc + params) \<times> 'a tg_locals" where
  "apply_intent E controller acc i =
     (case acc of
        (Inl e, ctx) \<Rightarrow> (Inl e, ctx)
      | (Inr p, ctx) \<Rightarrow>
          (fst (check E i controller p ((validation ctx)\<lparr>intent := Some i\<rparr>)),
           ctx\<lparr>validation := snd (check E i controller p ((validation ctx)\<lparr>intent := Some i\<rparr>)),
               log := log ctx @ [Check i controller p]\<rparr>))"

definition thread_intents ::
  "'a env \<Rightarrow> callable \<Rightarrow> intent list \<Rightarrow> params \<Rightarrow> 'a tg_locals \<Rightarrow> (exc + params) \<times> 'a tg_locals" where
  "thread_intents E controller intents ps ctx = foldl (apply_intent E controller) (Inr ps, ctx) intents"

subsection \<open>Reading the log\<close>

text \<open>
  The calls of an intent's check; the two calls that prepare a validation (steps 4 and 5
  of the dispatch: the \<^verbatim>\<open>before_validate\<close> notification and the merge of the parameters by
  \<^verbatim>\<open>get_params_with_argspec\<close>); and a log that has grown by calls of checks alone.
\<close>

fun is_check :: "event \<Rightarrow> bool" where
  "is_check (Check i c p) = True"
| "is_check e = False"

fun prepares_validation :: "event \<Rightarrow> bool" where
  "prepares_validation (Notify name args c) = (name = ''before_validate'')"
| "prepares_validation (GetParams c p r) = True"
| "prepares_validation e = False"

definition only_checks :: "event list \<Rightarrow> event list \<Rightarrow> bool" where
  "only_checks before after \<longleftrightarrow> (\<exists>evs. after = before @ evs \<and> (\<forall>e \<in> set evs. is_check e))"

subsection \<open>Example requests\<close>

text \<open>A request context before dispatch: a fresh validation status, an empty response.\<close>

definition idle_context :: "bool tg_locals" where
  "idle_context =
     \<lparr>validation = new_validation_status, args_params = None,
      request_environ = \<lparr>paste_testing = False, paste_testing_variables = None, auth = False\<rparr>,
      tg_response = \<lparr>resp_content_type = None, headers = Map.empty, status = None\<rparr>,
      log = []\<rparr>"

text \<open>The same request after a generic failure that named the field \<open>c\<close>.\<close>

definition failed_context :: "bool tg_locals" where
  "failed_context =
     idle_context\<lparr>validation := new_validation_status
        \<lparr>intent := Some 0, errors := [''c'' \<mapsto> ''old''], exception := Some (Invalid ''c: old'' None),
         chain_validation := True\<rparr>\<rparr>"

text \<open>
  A small application. Function 0 is an action whose only intent (0) rejects its
  parameters with a generic failure and names function 1 as error handler, with chained
  validation; function 1 has an intent (1) that accepts; function 2 has two intents, the
  second of which (3) looks at what the first (2) has added; function 4 has an intent (4)
  that rejects with a generic failure on the field \<open>c\<close> and chains to function 5, whose
  intent (5) rejects with the failure \<^verbatim>\<open>a: bad\nb: bad2\<close> and names no handler; any other
  function has no validations. Every function is exposed as JSON with the key \<open>y\<close>
  excluded, and the template renderer tells in its output whether the namespace it was
  given still has that key; the merge of the parameters for a callable marks them with
  the function it was made for.
\<close>

definition example_env :: "bool env" where
  "example_env =
     \<lparr>validations = (\<lambda>f. if f = 0 then [0] else if f = 1 then [1] else if f = 2 then [2, 3]
                         else if f = 4 then [4] else if f = 5 then [5] else []),
      check = (\<lambda>i controller p vs.
         if i = 0
         then (Inl (ValidationErr (Invalid ''a: bad'' None)),
               vs\<lparr>error_handler := Some (Function 1), chain_validation := True\<rparr>)
         else if i = 4
         then (Inl (ValidationErr (Invalid ''c: old'' None)),
               vs\<lparr>error_handler := Some (Function 5), chain_validation := True\<rparr>)
         else if i = 5
         then (Inl (ValidationErr (Invalid (''a: bad'' @ [CHR 0x0A] @ ''b: bad2'') None)),
               vs\<lparr>error_handler := None, chain_validation := False\<rparr>)
         else if i = 2 then (Inr (p(''page'' \<mapsto> PyInt 1)), vs)
         else if i = 3
         then (Inr (p(''size'' \<mapsto> (case p ''page'' of None \<Rightarrow> PyInt 0 | Some v \<Rightarrow> PyInt 10))), vs)
         else (Inr p, vs)),
      lookup_template_engine =
        (\<lambda>f ctx. (Some ''application/json'', Some ''json'', None, [''y''], Map.empty)),
      controller_caller = (\<lambda>f bound rem p rsp. (Inr (PyStr ''form''), rsp)),
      tg_render = (\<lambda>ns en tn rp. Inr (if ns ''y'' = None then ''clean'' else ''leaked'')),
      get_params_with_argspec = (\<lambda>c p rem. p(''argspec_of'' \<mapsto> PyInt (int (func_of c)))),
      flatten_arguments = (\<lambda>c p rem. (rem, p)),
      url2pathname = (\<lambda>s. s),
      not_anonymous_is_met = (\<lambda>e. auth e)\<rparr>"

text \<open>
  Two controllers whose \<^verbatim>\<open>allow_only\<close> is a bare predicate that nobody meets; the second
  has a \<^verbatim>\<open>_failed_authorization\<close> hook that redirects to the login page. And the idle
  request in a test harness, and the idle request of a requester who is known.
\<close>

definition guarded_controller :: "bool controller_obj" where
  "guarded_controller =
     \<lparr>allow_only = Some (Predicate (\<lambda>e. Some ''members only'')), failed_authorization = None\<rparr>"

definition redirecting_controller :: "bool controller_obj" where
  "redirecting_controller =
     \<lparr>allow_only = Some (Predicate (\<lambda>e. Some ''members only'')),
      failed_authorization = Some (\<lambda>reason ctx. (Some (HTTPException 302 ''/login''), ctx))\<rparr>"

definition testing_context :: "bool tg_locals" where
  "testing_context =
     idle_context\<lparr>request_environ :=
       \<lparr>paste_testing = True, paste_testing_variables = Some Map.empty, auth = False\<rparr>\<rparr>"

definition known_context :: "bool tg_locals" where
  "known_context = idle_context\<lparr>request_environ := (request_environ idle_context)\<lparr>auth := True\<rparr>\<rparr>"

section \<open>Properties\<close>

subsection \<open>Error classifier\<close>

lemma record_error_entry:
  "record_error errs line = errs(fst (line_entry line) \<mapsto> snd (line_entry line))"
  by (simp add: record_error_def line_entry_def py_split1_def)

lemma foldl_record_error:
  "foldl record_error errs lines = errs ++ map_of (rev (map line_entry lines))"
proof (induction lines arbitrary: errs)
  case Nil
  show ?case by simp
next
  case (Cons l ls)
  obtain k v where kv: "line_entry l = (k, v)" by (cases "line_entry l")
  have "foldl record_error errs (l # ls) = foldl record_error (record_error errs l) ls"
    by simp
  also have "\<dots> = record_error errs l ++ map_of (rev (map line_entry ls))"
    by (rule Cons.IH)
  also have "record_error errs l = errs(k \<mapsto> v)"
    using kv by (simp only: record_error_entry fst_conv snd_conv)
  also have "errs(k \<mapsto> v) ++ map_of (rev (map line_entry ls))
             = errs ++ map_of (rev (map line_entry (l # ls)))"
    using kv by (auto simp: map_add_def fun_eq_iff split: option.splits)
  finally show ?case .
qed

lemma errors_generic:
  "errors (validation (snd (process_validation_errors controller remainder ps (Invalid msg val) ctx)))
     = errors (validation ctx) ++ map_of (rev (map line_entry (py_split CHR 0x0A msg)))"
  by (simp add: process_validation_errors_def Let_def foldl_record_error split: option.split)

lemma errors_widget:
  "errors (validation (snd (process_validation_errors controller remainder ps
       (Tw2ValidationError widget_children v) ctx))) = map_of (rev widget_children)"
  by (simp add: process_validation_errors_def Let_def split: option.split)

lemma errors_structured:
  "errors (validation (snd (process_validation_errors controller remainder ps
       (TGValidationError error_dict v) ctx))) = error_dict"
  by (simp add: process_validation_errors_def Let_def split: option.split)

lemma entries_two_lines:
  "map line_entry (py_split CHR 0x0A (''a: bad'' @ [CHR 0x0A] @ ''b: bad2''))
     = [(''a'', ''bad''), (''b'', ''bad2'')]"
  by (simp add: line_entry_def strip_string_def isspace_def)

lemma entries_no_colon:
  "map line_entry (py_split CHR 0x0A ''overall bad'') = [(''_the_form'', ''overall bad'')]"
  by (simp add: line_entry_def strip_string_def isspace_def)

text \<open>
  Claim C2, as amended. For a generic failure the classifier assigns, line by line and
  on top of the error map that the status already holds, the stripped message at the
  stripped field key (at \<^verbatim>\<open>_the_form\<close> for a line without a colon); a later line wins
  over an earlier one with the same key. On a status whose error map is empty, the
  failure string \<^verbatim>\<open>a: bad\nb: bad2\<close> yields exactly the map of \<open>a\<close> to \<open>bad\<close> and \<open>b\<close> to
  \<open>bad2\<close>, and \<^verbatim>\<open>overall bad\<close> yields the map of \<^verbatim>\<open>_the_form\<close> to \<^verbatim>\<open>overall bad\<close>.
\<close>

theorem generic_failure_error_map:
  "errors (validation (snd (process_validation_errors controller remainder ps (Invalid msg val) ctx)))
     = errors (validation ctx) ++ map_of (rev (map line_entry (py_split CHR 0x0A msg)))
   \<and> (errors (validation ctx) = Map.empty \<longrightarrow>
        errors (validation (snd (process_validation_errors controller remainder ps
           (Invalid (''a: bad'' @ [CHR 0x0A] @ ''b: bad2'') val) ctx)))
          = [''a'' \<mapsto> ''bad'', ''b'' \<mapsto> ''bad2'']
      \<and> errors (validation (snd (process_validation_errors controller remainder ps
           (Invalid ''overall bad'' val) ctx)))
          = [''_the_form'' \<mapsto> ''overall bad''])"
proof -
  have two: "map_of (rev [(''a'', ''bad''), (''b'', ''bad2'')]) = [''a'' \<mapsto> ''bad'', ''b'' \<mapsto> ''bad2'']"
    by (auto simp: fun_eq_iff)
  show ?thesis
    by (simp only: errors_generic entries_two_lines entries_no_colon two) simp
qed

text \<open>The amended claim C2 at a fresh request.\<close>

theorem generic_failure_error_map_witness:
  "errors (validation idle_context) = Map.empty
   \<and> errors (validation (snd (process_validation_errors (Method 7 0) [] Map.empty
           (Invalid (''a: bad'' @ [CHR 0x0A] @ ''b: bad2'') None) idle_context)))
          = [''a'' \<mapsto> ''bad'', ''b'' \<mapsto> ''bad2'']
   \<and> errors (validation (snd (process_validation_errors (Method 7 0) [] Map.empty
           (Invalid ''overall bad'' None) idle_context)))
          = [''_the_form'' \<mapsto> ''overall bad'']"
  using generic_failure_error_map [of "Method 7 0" "[]" Map.empty "[]" None idle_context]
  by (simp add: idle_context_def new_validation_status_def)

text \<open>
  Claim C2 as stated fails: when a first generic failure of the request has named the
  field \<open>c\<close>, the classification of a second failure \<^verbatim>\<open>a: bad\nb: bad2\<close> (as happens when
  the validation of a chained error handler fails) leaves \<open>c\<close> in the error map, which
  is then not exactly the map of \<open>a\<close> and \<open>b\<close>.
\<close>

theorem generic_failure_exact_map_counterexample:
  "errors (validation (snd (process_validation_errors (Function 1) [] Map.empty
       (Invalid (''a: bad'' @ [CHR 0x0A] @ ''b: bad2'') None)
       (snd (process_validation_errors (Method 7 0) [] Map.empty (Invalid ''c: old'' None)
          idle_context)))))
   \<noteq> [''a'' \<mapsto> ''bad'', ''b'' \<mapsto> ''bad2'']"
proof
  assume eq: "errors (validation (snd (process_validation_errors (Function 1) [] Map.empty
       (Invalid (''a: bad'' @ [CHR 0x0A] @ ''b: bad2'') None)
       (snd (process_validation_errors (Method 7 0) [] Map.empty (Invalid ''c: old'' None)
          idle_context))))) = [''a'' \<mapsto> ''bad'', ''b'' \<mapsto> ''bad2'']"
  have "map line_entry (py_split CHR 0x0A ''c: old'') = [(''c'', ''old'')]"
    by (simp add: line_entry_def strip_string_def isspace_def)
  then have "errors (validation (snd (process_validation_errors (Function 1) [] Map.empty
       (Invalid (''a: bad'' @ [CHR 0x0A] @ ''b: bad2'') None)
       (snd (process_validation_errors (Method 7 0) [] Map.empty (Invalid ''c: old'' None)
          idle_context))))) ''c'' = Some ''old''"
    by (simp only: errors_generic entries_two_lines) (simp add: map_add_def)
  with eq show False by simp
qed

text \<open>
  Such a second failure arises in a dispatch: the validation of function 4 fails on the
  field \<open>c\<close> and chains to function 5, whose validation fails with \<^verbatim>\<open>a: bad\nb: bad2\<close>; the
  request ends with the three fields in its error map.
\<close>

lemma example_chained_failures:
  "map_option (\<lambda>r. errors (validation (snd r)))
     (call example_env (Method 7 4) Map.empty None idle_context)
   = Some [''c'' \<mapsto> ''old'', ''a'' \<mapsto> ''bad'', ''b'' \<mapsto> ''bad2'']"
  by (simp add: call_def Let_def example_env_def idle_context_def new_validation_status_def
        hooks_notify_def perform_validate_def process_validation_errors_def chain_loop.simps
        invoke_and_render_def render_response_def record_error_def py_split1_def
        strip_string_def isspace_def)

text \<open>
  Claim C3. When the validation status carries no error handler, the classifier returns,
  whatever the shape of the failure, the controller's underlying function as the error
  handler and False as the chain flag (with the controller's instance).
\<close>

theorem classifier_no_handler:
  "error_handler (validation ctx) = None \<Longrightarrow>
   fst (process_validation_errors controller remainder ps ex ctx)
     = (im_self controller, default_im_func controller, False)"
  by (cases ex) (simp_all add: process_validation_errors_def Let_def)

text \<open>Claim C3 on a status whose chain flag is set although it has no handler.\<close>

theorem classifier_no_handler_witness:
  "error_handler (validation (idle_context\<lparr>validation := new_validation_status\<lparr>chain_validation := True\<rparr>\<rparr>)) = None
   \<and> fst (process_validation_errors (Method 7 0) [] Map.empty (Invalid ''a: bad'' None)
          (idle_context\<lparr>validation := new_validation_status\<lparr>chain_validation := True\<rparr>\<rparr>))
       = (Some 7, Function 0, False)"
  using classifier_no_handler [of "idle_context\<lparr>validation := new_validation_status\<lparr>chain_validation := True\<rparr>\<rparr>"
          "Method 7 0" "[]" Map.empty "Invalid ''a: bad'' None"]
  by (simp add: new_validation_status_def)

lemma map_add_map_of_frame:
  "k \<notin> fst ` set kvs \<Longrightarrow> (m ++ map_of (rev kvs)) k = m k"
proof -
  assume "k \<notin> fst ` set kvs"
  then have "map_of (rev kvs) k = None" by (simp add: map_of_eq_None_iff)
  then show ?thesis by (simp add: map_add_def)
qed

text \<open>
  Claim C10. A generic failure leaves the entry of every field that its message does not
  name as it was in the status's error map; a widget-style failure and a structured
  failure replace the error map by their own, whatever it held; so after two generic
  failures in one request the error map is the earlier map overridden by the entries of
  the first failure and then by those of the second.
\<close>

theorem classifier_error_map_frame:
  "(k \<notin> fst ` set (map line_entry (py_split CHR 0x0A msg)) \<longrightarrow>
      errors (validation (snd (process_validation_errors controller remainder ps
         (Invalid msg val) ctx))) k = errors (validation ctx) k)
   \<and> errors (validation (snd (process_validation_errors controller remainder ps
         (Tw2ValidationError widget_children child_value) ctx))) = map_of (rev widget_children)
   \<and> errors (validation (snd (process_validation_errors controller remainder ps
         (TGValidationError error_dict v) ctx))) = error_dict
   \<and> errors (validation (snd (process_validation_errors handler remainder ps (Invalid msg val)
         (snd (process_validation_errors controller remainder ps (Invalid msg0 val0) ctx)))))
       = errors (validation ctx) ++ map_of (rev (map line_entry (py_split CHR 0x0A msg0)))
           ++ map_of (rev (map line_entry (py_split CHR 0x0A msg)))"
  by (simp only: errors_generic errors_widget errors_structured)
     (simp add: map_add_map_of_frame)

text \<open>Claim C10 on a request that has already failed on the field \<open>c\<close>.\<close>

theorem classifier_error_map_frame_witness:
  "''c'' \<notin> fst ` set (map line_entry (py_split CHR 0x0A ''a: bad''))
   \<and> errors (validation (snd (process_validation_errors (Function 1) [] Map.empty
         (Invalid ''a: bad'' None) failed_context))) ''c'' = Some ''old''"
  using classifier_error_map_frame [of "''c''" "''a: bad''" "Function 1" "[]" Map.empty None failed_context]
  by (simp add: line_entry_def strip_string_def isspace_def failed_context_def idle_context_def
        new_validation_status_def)

subsection \<open>Validation runner\<close>

text \<open>
  Claim C5. For a controller whose decoration has no validations the runner returns the
  parameters it received, and leaves the context as it was.
\<close>

theorem perform_validate_no_validations:
  "validations E (func_of controller) = [] \<Longrightarrow>
   perform_validate E controller ps ctx = (Inr ps, ctx)"
  by (simp add: perform_validate_def)

lemma foldl_apply_intent_Inl:
  "foldl (apply_intent E controller) (Inl e, ctx) intents = (Inl e, ctx)"
  by (induction intents) (simp_all add: apply_intent_def)

lemma run_intents_foldl:
  "run_intents E controller intents ps ctx = foldl (apply_intent E controller) (Inr ps, ctx) intents"
proof (induction intents arbitrary: ps ctx)
  case Nil
  show ?case by simp
next
  case (Cons i rest)
  obtain r vs' where chk: "check E i controller ps ((validation ctx)\<lparr>intent := Some i\<rparr>) = (r, vs')"
    by (cases "check E i controller ps ((validation ctx)\<lparr>intent := Some i\<rparr>)")
  define ctx' where "ctx' = ctx\<lparr>validation := vs', log := log ctx @ [Check i controller ps]\<rparr>"
  have step: "apply_intent E controller (Inr ps, ctx) i = (r, ctx')"
    by (simp add: apply_intent_def chk ctx'_def)
  show ?case
  proof (cases r)
    case (Inl e)
    have "run_intents E controller (i # rest) ps ctx = (Inl e, ctx')"
      by (simp add: chk ctx'_def Inl Let_def)
    then show ?thesis
      by (simp only: foldl_Cons step Inl foldl_apply_intent_Inl)
  next
    case (Inr q)
    have "run_intents E controller (i # rest) ps ctx = run_intents E controller rest q ctx'"
      by (simp add: chk ctx'_def Inr Let_def)
    then show ?thesis
      by (simp only: foldl_Cons step Inr Cons.IH)
  qed
qed

lemma perform_validate_thread:
  "perform_validate E controller ps ctx
     = thread_intents E controller (validations E (func_of controller)) ps ctx"
  by (simp add: perform_validate_def thread_intents_def run_intents_foldl Let_def)

text \<open>
  Claim C6. With a non-empty list of intents the runner is the left-to-right threading of
  the intents in their declared order: the first intent receives the incoming
  parameters, the intents after it continue from its outcome, and the result is what
  the last intent makes of the outcome of those before it.
\<close>

theorem perform_validate_left_to_right:
  "(validations E (func_of controller) \<noteq> [] \<longrightarrow>
      perform_validate E controller ps ctx
        = thread_intents E controller (validations E (func_of controller)) ps ctx)
   \<and> (validations E (func_of controller) = first # rest \<longrightarrow>
        perform_validate E controller ps ctx
          = foldl (apply_intent E controller) (apply_intent E controller (Inr ps, ctx) first) rest)
   \<and> (validations E (func_of controller) = front @ [final] \<longrightarrow>
        perform_validate E controller ps ctx
          = apply_intent E controller (thread_intents E controller front ps ctx) final)"
  by (simp add: perform_validate_thread thread_intents_def)

text \<open>
  Claim C6 on function 2 of the example: intent 3 is checked after intent 2, on the
  parameters that intent 2 returned.
\<close>

theorem perform_validate_left_to_right_witness:
  "validations example_env (func_of (Method 7 2)) = 2 # [3]
   \<and> validations example_env (func_of (Method 7 2)) = [2] @ [3]
   \<and> fst (perform_validate example_env (Method 7 2) Map.empty idle_context)
       = Inr [''page'' \<mapsto> PyInt 1, ''size'' \<mapsto> PyInt 10]
   \<and> log (snd (perform_validate example_env (Method 7 2) Map.empty idle_context))
       = [Check 2 (Method 7 2) Map.empty, Check 3 (Method 7 2) [''page'' \<mapsto> PyInt 1]]"
  using perform_validate_left_to_right [of example_env "Method 7 2" Map.empty idle_context 2 "[3]" "[2]" 3]
  by (simp add: example_env_def thread_intents_def apply_intent_def idle_context_def)

text \<open>Claim C5 on function 3 of the example, which has no validations.\<close>

theorem perform_validate_no_validations_witness:
  "validations example_env (func_of (Method 7 3)) = []
   \<and> perform_validate example_env (Method 7 3) [''q'' \<mapsto> PyStr ''tea''] idle_context
       = (Inr [''q'' \<mapsto> PyStr ''tea''], idle_context)"
  using perform_validate_no_validations [of example_env "Method 7 3" "[''q'' \<mapsto> PyStr ''tea'']" idle_context]
  by (simp add: example_env_def)

subsection \<open>Response renderer\<close>

lemma pop_all_restrict: "pop_all d names = d |` (- set names)"
proof -
  have "foldl (\<lambda>ns name. ns(name := None)) d names = d |` (- set names)"
  proof (induction names arbitrary: d)
    case Nil
    show ?case by simp
  next
    case (Cons n ns)
    have "foldl (\<lambda>ns name. ns(name := None)) d (n # ns) = (d(n := None)) |` (- set ns)"
      by (simp only: foldl_Cons Cons.IH)
    also have "\<dots> = d |` (- set (n # ns))"
      by (rule ext) (simp add: restrict_map_def)
    finally show ?case .
  qed
  then show ?thesis by (simp add: pop_all_def)
qed

lemma render_response_tg_response:
  "tg_response (snd (render_response E tgl controller v))
     = (case (resp_content_type (tg_response tgl), fst (lookup_template_engine E (func_of controller) tgl)) of
          (None, Some ect) \<Rightarrow>
            if \<not> py_in ''charset'' ect \<and>
               (startswith ect ''text'' \<or>
                ect \<in> set [''application/xhtml+xml'', ''application/xml'', ''application/json''])
            then (tg_response tgl)\<lparr>headers := (headers (tg_response tgl))(''Content-Type'' \<mapsto> ect),
                                   resp_content_type := Some (ect @ ''; charset=utf-8'')\<rparr>
            else (tg_response tgl)\<lparr>headers := (headers (tg_response tgl))(''Content-Type'' \<mapsto> ect)\<rparr>
        | _ \<Rightarrow> tg_response tgl)"
  by (cases "lookup_template_engine E (func_of controller) tgl")
     (simp add: render_response_def Let_def split: pyval.split option.split sum.split)

text \<open>
  Claim C7. When the response has no content type and the decoration suggests one that
  has no charset and starts with \<^verbatim>\<open>text\<close> or is the XHTML, XML or JSON type, the response's
  content type after rendering is the suggested one followed by \<^verbatim>\<open>; charset=utf-8\<close>.
\<close>

theorem render_response_charset:
  assumes "resp_content_type (tg_response tgl) = None"
    and "fst (lookup_template_engine E (func_of controller) tgl) = Some ect"
    and "\<not> py_in ''charset'' ect"
    and "startswith ect ''text'' \<or> ect = ''application/xhtml+xml'' \<or> ect = ''application/xml''
         \<or> ect = ''application/json''"
  shows "resp_content_type (tg_response (snd (render_response E tgl controller v)))
           = Some (ect @ ''; charset=utf-8'')"
  using assms by (auto simp add: render_response_tg_response)

lemma json_no_charset: "\<not> py_in ''charset'' ''application/json''"
  unfolding py_in_def by code_simp

text \<open>Claim C7 for \<^verbatim>\<open>application/json\<close>.\<close>

theorem render_response_charset_witness:
  "resp_content_type (tg_response idle_context) = None
   \<and> fst (lookup_template_engine example_env (func_of (Method 7 3)) idle_context) = Some ''application/json''
   \<and> \<not> py_in ''charset'' ''application/json''
   \<and> resp_content_type (tg_response (snd (render_response example_env idle_context (Method 7 3)
         (PyDict [''x'' \<mapsto> PyInt 1]))))
       = Some ''application/json; charset=utf-8''"
  using render_response_charset [of idle_context example_env "Method 7 3" "''application/json''"
          "PyDict [''x'' \<mapsto> PyInt 1]"]
  by (simp add: idle_context_def example_env_def json_no_charset)

text \<open>
  Claim C8. A controller output that is not a dict is returned unchanged as the body, and
  the renderer makes no call to a collaborator (nothing is rendered) and leaves the
  request environment alone.
\<close>

theorem render_response_not_mapping:
  "\<not> isinstance_dict v \<Longrightarrow>
   map_sum id response (fst (render_response E tgl controller v)) = Inr v
   \<and> log (snd (render_response E tgl controller v)) = log tgl
   \<and> request_environ (snd (render_response E tgl controller v)) = request_environ tgl"
  by (cases "lookup_template_engine E (func_of controller) tgl"; cases v)
     (simp_all add: render_response_def Let_def)

text \<open>Claim C8 for a bare string.\<close>

theorem render_response_not_mapping_witness:
  "\<not> isinstance_dict (PyStr ''hello'')
   \<and> map_sum id response (fst (render_response example_env idle_context (Method 7 3) (PyStr ''hello'')))
       = Inr (PyStr ''hello'')
   \<and> log (snd (render_response example_env idle_context (Method 7 3) (PyStr ''hello''))) = []"
  using render_response_not_mapping [of "PyStr ''hello''" example_env idle_context "Method 7 3"]
  by (simp add: idle_context_def)

text \<open>
  Claim C9. For a controller output that is a dict, the namespace that the renderer hands
  to the template renderer is the dict without the keys of the exclude-list: the body
  of the result is what the template renderer makes of that namespace (with the engine
  name, the template name and the render parameters of the decoration), an exception
  of the template renderer is the renderer's, and the call is the only one made. The
  one case without a call is a request that claims to be a test request but has no
  dict of testing variables, where the lookup of that dict raises before rendering.
\<close>

theorem render_response_namespace:
  assumes "lookup_template_engine E (func_of controller) tgl
             = (engine_content_type, eng_name, tmpl_name, exclude_names, render_params)"
  shows "fst (render_response E tgl controller (PyDict d))
           = (if paste_testing (request_environ tgl)
                 \<and> paste_testing_variables (request_environ tgl) = None
              then Inl (KeyError ''paste.testing_variables'')
              else (case tg_render E (d |` (- set exclude_names)) eng_name tmpl_name render_params of
                      Inl e \<Rightarrow> Inl e
                    | Inr rendered \<Rightarrow>
                        Inr \<lparr>response = PyStr rendered, content_type = engine_content_type,
                             engine_name = eng_name, template_name = tmpl_name\<rparr>))
         \<and> log (snd (render_response E tgl controller (PyDict d)))
           = log tgl @
             (if paste_testing (request_environ tgl)
                 \<and> paste_testing_variables (request_environ tgl) = None
              then []
              else [Render (d |` (- set exclude_names)) eng_name tmpl_name render_params])
         \<and> (paste_testing (request_environ tgl) \<longrightarrow>
              paste_testing_variables (request_environ tgl) = Some tv \<longrightarrow>
              map_option (\<lambda>tv'. tv' ''namespace'')
                (paste_testing_variables (request_environ (snd (render_response E tgl controller (PyDict d)))))
                = Some (Some (PyDict (d |` (- set exclude_names)))))"
  using assms
  by (auto simp add: render_response_def Let_def pop_all_restrict split: sum.split)

text \<open>
  Claim C9 for the output with keys \<open>x\<close> and \<open>y\<close> and the exclude-list of \<open>y\<close>, in a test
  request: the template renderer of the example answers \<open>clean\<close>, as it does for a
  namespace without \<open>y\<close>.
\<close>

theorem render_response_namespace_witness:
  "lookup_template_engine example_env (func_of (Method 7 3)) testing_context
     = (Some ''application/json'', Some ''json'', None, [''y''], Map.empty)
   \<and> paste_testing (request_environ testing_context)
   \<and> paste_testing_variables (request_environ testing_context) = Some Map.empty
   \<and> fst (render_response example_env testing_context (Method 7 3)
         (PyDict [''x'' \<mapsto> PyInt 1, ''y'' \<mapsto> PyInt 2]))
       = Inr \<lparr>response = PyStr ''clean'', content_type = Some ''application/json'',
              engine_name = Some ''json'', template_name = None\<rparr>
   \<and> log (snd (render_response example_env testing_context (Method 7 3)
         (PyDict [''x'' \<mapsto> PyInt 1, ''y'' \<mapsto> PyInt 2])))
       = [Render [''x'' \<mapsto> PyInt 1] (Some ''json'') None Map.empty]
   \<and> map_option (\<lambda>tv'. tv' ''namespace'')
         (paste_testing_variables (request_environ (snd (render_response example_env
            testing_context (Method 7 3) (PyDict [''x'' \<mapsto> PyInt 1, ''y'' \<mapsto> PyInt 2])))))
       = Some (Some (PyDict [''x'' \<mapsto> PyInt 1]))"
proof -
  have r: "[''x'' \<mapsto> PyInt 1, ''y'' \<mapsto> PyInt 2] |` (- set [''y'']) = [''x'' \<mapsto> PyInt 1]"
    by (auto simp: restrict_map_def fun_eq_iff)
  have l: "lookup_template_engine example_env (func_of (Method 7 3)) testing_context
     = (Some ''application/json'', Some ''json'', None, [''y''], Map.empty)"
    by (simp add: example_env_def)
  have t: "paste_testing (request_environ testing_context)"
    and v: "paste_testing_variables (request_environ testing_context) = Some Map.empty"
    and e: "log testing_context = []"
    by (simp_all add: testing_context_def idle_context_def)
  have c: "tg_render example_env [''x'' \<mapsto> PyInt 1] (Some ''json'') None Map.empty = Inr ''clean''"
    by (simp add: example_env_def)
  from render_response_namespace
         [OF l, of "[''x'' \<mapsto> PyInt 1, ''y'' \<mapsto> PyInt 2]" Map.empty] r l t v e c
  show ?thesis by simp
qed

subsection \<open>Security checker\<close>

text \<open>
  Claim C4, as amended. When a bare predicate on \<^verbatim>\<open>allow_only\<close> fails and the controller has
  no \<^verbatim>\<open>_failed_authorization\<close> hook, or has one that returns without raising, the checker
  sets the response status to 403 and flashes the reason with severity \<^verbatim>\<open>error\<close> if the
  requester is known to be non-anonymous, and otherwise sets 401 and flashes with
  severity \<^verbatim>\<open>warning\<close>; in both cases it aborts with that status code and the reason.
\<close>

theorem check_security_predicate_failure:
  assumes "allow_only self = Some (Predicate check_authorization)"
    and "check_authorization (request_environ ctx) = Some reason"
    and "(case failed_authorization self of None \<Rightarrow> (None, ctx) | Some hook \<Rightarrow> hook reason ctx)
           = (None, ctx1)"
  shows "check_security E self ctx =
     (if not_anonymous_is_met E (request_environ ctx1)
      then (Inl (HTTPException 403 reason),
            ctx1\<lparr>tg_response := (tg_response ctx1)\<lparr>status := Some 403\<rparr>,
                 log := log ctx1 @ [Flash reason ''error'']\<rparr>)
      else (Inl (HTTPException 401 reason),
            ctx1\<lparr>tg_response := (tg_response ctx1)\<lparr>status := Some 401\<rparr>,
                 log := log ctx1 @ [Flash reason ''warning'']\<rparr>))"
  using assms by (simp add: check_security_def)

text \<open>The amended claim C4 for an anonymous and for a known requester, without a hook.\<close>

theorem check_security_predicate_failure_witness:
  "allow_only guarded_controller = Some (Predicate (\<lambda>e. Some ''members only''))
   \<and> check_security example_env guarded_controller idle_context
       = (Inl (HTTPException 401 ''members only''),
          idle_context\<lparr>tg_response := (tg_response idle_context)\<lparr>status := Some 401\<rparr>,
                       log := [Flash ''members only'' ''warning'']\<rparr>)
   \<and> check_security example_env guarded_controller known_context
       = (Inl (HTTPException 403 ''members only''),
          known_context\<lparr>tg_response := (tg_response known_context)\<lparr>status := Some 403\<rparr>,
                       log := [Flash ''members only'' ''error'']\<rparr>)"
  using check_security_predicate_failure [of guarded_controller "\<lambda>e. Some ''members only''"
          idle_context "''members only''" idle_context example_env]
        check_security_predicate_failure [of guarded_controller "\<lambda>e. Some ''members only''"
          known_context "''members only''" known_context example_env]
  by (simp add: guarded_controller_def example_env_def idle_context_def known_context_def)

text \<open>
  Claim C4 as stated fails: the predicate of this controller fails for an anonymous
  requester, but its \<^verbatim>\<open>_failed_authorization\<close> hook raises a redirect, so the checker ends
  with the hook's exception, the response status is not set and nothing is flashed.
\<close>

theorem check_security_hook_counterexample:
  "allow_only redirecting_controller = Some (Predicate (\<lambda>e. Some ''members only''))
   \<and> check_security example_env redirecting_controller idle_context
       = (Inl (HTTPException 302 ''/login''), idle_context)
   \<and> status (tg_response idle_context) = None
   \<and> log idle_context = []"
  by (simp add: check_security_def redirecting_controller_def idle_context_def)

subsection \<open>Dispatch orchestrator\<close>

lemma only_checks_refl: "only_checks l l"
  by (simp add: only_checks_def)

lemma only_checks_trans: "only_checks a b \<Longrightarrow> only_checks b c \<Longrightarrow> only_checks a c"
  by (auto simp: only_checks_def)

lemma only_checks_snoc: "only_checks a (a @ [Check i c p])"
  by (simp add: only_checks_def)

lemma only_checks_filter:
  "only_checks a b \<Longrightarrow> filter prepares_validation b = filter prepares_validation a"
proof -
  have "is_check e \<Longrightarrow> \<not> prepares_validation e" for e by (cases e) simp_all
  then have "\<forall>e \<in> set evs. is_check e \<Longrightarrow> filter prepares_validation evs = []" for evs
    by (induction evs) auto
  moreover assume "only_checks a b"
  ultimately show ?thesis by (auto simp: only_checks_def)
qed

lemma run_intents_log:
  "only_checks (log ctx) (log (snd (run_intents E controller intents ps ctx)))"
proof (induction intents arbitrary: ps ctx)
  case Nil
  show ?case by (simp add: only_checks_refl)
next
  case (Cons i rest)
  obtain r vs' where chk: "check E i controller ps ((validation ctx)\<lparr>intent := Some i\<rparr>) = (r, vs')"
    by (cases "check E i controller ps ((validation ctx)\<lparr>intent := Some i\<rparr>)")
  define ctx' where "ctx' = ctx\<lparr>validation := vs', log := log ctx @ [Check i controller ps]\<rparr>"
  have first: "only_checks (log ctx) (log ctx')"
    by (simp add: ctx'_def only_checks_snoc)
  show ?case
  proof (cases r)
    case (Inl e)
    have "run_intents E controller (i # rest) ps ctx = (Inl e, ctx')"
      by (simp add: chk ctx'_def Inl Let_def)
    with first show ?thesis by simp
  next
    case (Inr q)
    have "run_intents E controller (i # rest) ps ctx = run_intents E controller rest q ctx'"
      by (simp add: chk ctx'_def Inr Let_def)
    with only_checks_trans [OF first Cons.IH [of ctx' q]] show ?thesis by simp
  qed
qed

lemma perform_validate_log:
  "only_checks (log ctx) (log (snd (perform_validate E controller ps ctx)))"
  by (simp add: perform_validate_def Let_def run_intents_log only_checks_refl)

lemma process_validation_errors_log:
  "log (snd (process_validation_errors controller remainder ps ex ctx)) = log ctx"
  by (simp add: process_validation_errors_def Let_def split: option.split)

lemma chain_loop_log:
  assumes "chain_loop E validate_params remainder st ps ctx = Some res"
  shows "only_checks (log ctx) (log (snd res))"
proof (rule chain_loop.raw_induct
    [where P = "\<lambda>E validate_params remainder st ps ctx res. only_checks (log ctx) (log (snd res))",
     OF _ assms], goal_cases)
  case (1 loop E validate_params remainder st ps ctx res)
  obtain inst handler chain where st: "st = (inst, handler, chain)" by (cases st)
  show ?case
  proof (cases chain)
    case False
    with 1(2) st show ?thesis by (auto simp: only_checks_refl)
  next
    case True
    obtain v ctx1 where pv: "perform_validate E handler validate_params ctx = (v, ctx1)"
      by (cases "perform_validate E handler validate_params ctx")
    have l1: "only_checks (log ctx) (log ctx1)"
      using perform_validate_log [of ctx E handler validate_params] pv by simp
    show ?thesis
    proof (cases v)
      case (Inr ps')
      with 1(2) st True pv
      have "loop E validate_params remainder (inst, handler, False) ps' ctx1 = Some res"
        by simp
      from l1 1(1) [OF this] show ?thesis by (rule only_checks_trans)
    next
      case (Inl e)
      show ?thesis
      proof (cases e)
        case (ValidationErr invalid)
        obtain st' ctx2 where pve:
          "process_validation_errors handler remainder ps invalid ctx1 = (st', ctx2)"
          by (cases "process_validation_errors handler remainder ps invalid ctx1")
        have l2: "log ctx2 = log ctx1"
          using process_validation_errors_log [of handler remainder ps invalid ctx1] pve by simp
        from 1(2) st True pv Inl ValidationErr pve
        have "loop E validate_params remainder st' ps ctx2 = Some res" by simp
        from 1(1) [OF this] l1 l2 show ?thesis by (auto intro: only_checks_trans)
      next
        case (KeyError k)
        with 1(2) st True pv Inl l1 show ?thesis by auto
      next
        case (HTTPException c m)
        with 1(2) st True pv Inl l1 show ?thesis by auto
      next
        case (OtherError m)
        with 1(2) st True pv Inl l1 show ?thesis by auto
      qed
    qed
  qed
qed

lemma chain_loop_stop:
  "chain_loop E validate_params remainder (inst, handler, False) ps ctx
     = Some (Inr (inst, handler, ps), ctx)"
  by (subst chain_loop.simps) simp

lemma chain_loop_valid:
  "perform_validate E handler validate_params ctx = (Inr ps', ctx1) \<Longrightarrow>
   chain_loop E validate_params remainder (inst, handler, True) ps ctx
     = Some (Inr (inst, handler, ps'), ctx1)"
  by (subst chain_loop.simps) (simp add: chain_loop_stop)

lemma chain_loop_invalid:
  "perform_validate E handler validate_params ctx = (Inl (ValidationErr invalid), ctx1) \<Longrightarrow>
   chain_loop E validate_params remainder (inst, handler, True) ps ctx
     = chain_loop E validate_params remainder
         (fst (process_validation_errors handler remainder ps invalid ctx1)) ps
         (snd (process_validation_errors handler remainder ps invalid ctx1))"
  by (subst chain_loop.simps) (simp add: split_beta)

lemma render_response_log:
  "filter prepares_validation (log (snd (render_response E tgl controller v)))
     = filter prepares_validation (log tgl)"
  by (cases "lookup_template_engine E (func_of controller) tgl")
     (simp add: render_response_def Let_def split: pyval.split sum.split)

lemma invoke_and_render_log:
  "filter prepares_validation (log (snd (invoke_and_render E action bound remainder ps ctx)))
     = filter prepares_validation (log ctx)"
proof -
  obtain r rsp where cc: "controller_caller E (func_of action) bound remainder ps
      (tg_response (hooks_notify ''before_call'' (ArgsValidate remainder ps) action ctx)) = (r, rsp)"
    by (cases "controller_caller E (func_of action) bound remainder ps
      (tg_response (hooks_notify ''before_call'' (ArgsValidate remainder ps) action ctx))")
  show ?thesis
  proof (cases r)
    case (Inl e)
    with cc show ?thesis by (simp add: invoke_and_render_def Let_def hooks_notify_def)
  next
    case (Inr out)
    define ctx3 where "ctx3 = hooks_notify ''before_render'' (ArgsRender remainder ps out) action
        ((hooks_notify ''before_call'' (ArgsValidate remainder ps) action ctx)
           \<lparr>tg_response := rsp,
            log := log (hooks_notify ''before_call'' (ArgsValidate remainder ps) action ctx)
                     @ [Caller action bound remainder ps]\<rparr>)"
    have l3: "filter prepares_validation (log ctx3) = filter prepares_validation (log ctx)"
      by (simp add: ctx3_def hooks_notify_def)
    obtain rr ctx4 where rr: "render_response E ctx3 action out = (rr, ctx4)"
      by (cases "render_response E ctx3 action out")
    have l4: "filter prepares_validation (log ctx4) = filter prepares_validation (log ctx3)"
      using render_response_log [of E ctx3 action out] rr by simp
    have "invoke_and_render E action bound remainder ps ctx
            = (case rr of Inl e \<Rightarrow> (Inl e, ctx4)
               | Inr result \<Rightarrow> (Inr (response result),
                   hooks_notify ''after_render'' (ArgsResponse result) action ctx4))"
      using cc Inr rr by (simp add: invoke_and_render_def Let_def ctx3_def)
    with l3 l4 show ?thesis by (cases rr) (simp_all add: hooks_notify_def)
  qed
qed

lemma call_log:
  assumes "call E action ps remainder0 ctx0 = Some res"
  shows "filter prepares_validation (log (snd res))
           = filter prepares_validation (log ctx0)
             @ [Notify ''before_validate''
                  (ArgsValidate (case remainder0 of None \<Rightarrow> [] | Some segs \<Rightarrow> map (url2pathname E) segs) ps)
                  action,
                GetParams action ps
                  (case remainder0 of None \<Rightarrow> [] | Some segs \<Rightarrow> map (url2pathname E) segs)]"
proof -
  define remainder where
    "remainder = (case remainder0 of None \<Rightarrow> [] | Some segs \<Rightarrow> map (url2pathname E) segs)"
  define validate_params where "validate_params = get_params_with_argspec E action ps remainder"
  define ctx2 where "ctx2 =
     (if headers (tg_response ctx0) ''Content-Type'' = None
         \<or> headers (tg_response ctx0) ''Content-Type'' = Some []
      then ctx0\<lparr>validation := new_validation_status,
                tg_response := (tg_response ctx0)
                  \<lparr>headers := (headers (tg_response ctx0))(''Content-Type'' := None)\<rparr>\<rparr>
      else ctx0\<lparr>validation := new_validation_status\<rparr>)"
  define ctx4 where "ctx4 =
     (hooks_notify ''before_validate'' (ArgsValidate remainder ps) action ctx2)
       \<lparr>args_params := Some validate_params,
        log := log (hooks_notify ''before_validate'' (ArgsValidate remainder ps) action ctx2)
                 @ [GetParams action ps remainder]\<rparr>"
  let ?goal = "\<lambda>l. filter prepares_validation l
            = filter prepares_validation (log ctx0)
              @ [Notify ''before_validate'' (ArgsValidate remainder ps) action,
                 GetParams action ps remainder]"
  have l4: "?goal (log ctx4)"
    by (simp add: ctx4_def ctx2_def hooks_notify_def)
  obtain v ctx5 where pv: "perform_validate E action validate_params ctx4 = (v, ctx5)"
    by (cases "perform_validate E action validate_params ctx4")
  have l5: "?goal (log ctx5)"
    using only_checks_filter [OF perform_validate_log [of ctx4 E action validate_params]] pv l4
    by simp
  have unfolded: "call E action ps remainder0 ctx0 =
     (case (v, ctx5) of
        (Inl (ValidationErr invalid), ctx5) \<Rightarrow>
          (case process_validation_errors action remainder ps invalid ctx5 of
             (st, ctx6) \<Rightarrow>
               (case chain_loop E validate_params remainder st ps ctx6 of
                  None \<Rightarrow> None
                | Some (Inl e, ctx7) \<Rightarrow> Some (Inl e, ctx7)
                | Some (Inr (inst, handler, ps'), ctx7) \<Rightarrow>
                    Some (invoke_and_render E handler (Partial handler inst) remainder ps' ctx7)))
      | (Inl e, ctx5) \<Rightarrow> Some (Inl e, ctx5)
      | (Inr ps', ctx5) \<Rightarrow>
          let ctx6 = ctx5\<lparr>validation := (validation ctx5)\<lparr>status_values := PyDict ps'\<rparr>\<rparr>;
              (remainder', ps'') = flatten_arguments E action ps' remainder
          in Some (invoke_and_render E action (Bound action) remainder' ps'' ctx6))"
    unfolding call_def Let_def
    by (simp only: pv [symmetric] validate_params_def remainder_def ctx4_def ctx2_def if_distrib
          cong: if_cong) (simp add: if_distrib cong: if_cong)
  show ?thesis
    unfolding remainder_def [symmetric]
  proof (cases v)
    case (Inr ps')
    with assms unfolded l5 show "?goal (log (snd res))"
      by (auto simp: Let_def invoke_and_render_log split: prod.splits)
  next
    case (Inl e)
    show "?goal (log (snd res))"
    proof (cases e)
      case (ValidationErr invalid)
      obtain st ctx6 where pve: "process_validation_errors action remainder ps invalid ctx5 = (st, ctx6)"
        by (cases "process_validation_errors action remainder ps invalid ctx5")
      have l6: "?goal (log ctx6)"
        using process_validation_errors_log [of action remainder ps invalid ctx5] pve l5 by simp
      from assms unfolded Inl ValidationErr pve
      obtain lr ctx7 where loop: "chain_loop E validate_params remainder st ps ctx6 = Some (lr, ctx7)"
        by (cases "chain_loop E validate_params remainder st ps ctx6") auto
      have l7: "?goal (log ctx7)"
        using only_checks_filter [OF chain_loop_log [OF loop]] l6 by simp
      from assms unfolded Inl ValidationErr pve loop l7 show ?thesis
        by (cases lr) (auto simp: invoke_and_render_log)
    next
      case (KeyError k)
      with assms unfolded Inl l5 show ?thesis by auto
    next
      case (HTTPException c m)
      with assms unfolded Inl l5 show ?thesis by auto
    next
      case (OtherError m)
      with assms unfolded Inl l5 show ?thesis by auto
    qed
  qed
qed

lemma call_unfold:
  "call E action ps remainder0 ctx0 =
     (case perform_validate E action
             (get_params_with_argspec E action ps (decoded_remainder E remainder0))
             (context_before_validation E action ps remainder0 ctx0) of
        (Inl (ValidationErr invalid), ctx5) \<Rightarrow>
          (case process_validation_errors action (decoded_remainder E remainder0) ps invalid ctx5 of
             (st, ctx6) \<Rightarrow>
               (case chain_loop E (get_params_with_argspec E action ps (decoded_remainder E remainder0))
                       (decoded_remainder E remainder0) st ps ctx6 of
                  None \<Rightarrow> None
                | Some (Inl e, ctx7) \<Rightarrow> Some (Inl e, ctx7)
                | Some (Inr (inst, handler, ps'), ctx7) \<Rightarrow>
                    Some (invoke_and_render E handler (Partial handler inst)
                            (decoded_remainder E remainder0) ps' ctx7)))
      | (Inl e, ctx5) \<Rightarrow> Some (Inl e, ctx5)
      | (Inr ps', ctx5) \<Rightarrow>
          let ctx6 = ctx5\<lparr>validation := (validation ctx5)\<lparr>status_values := PyDict ps'\<rparr>\<rparr>;
              (remainder', ps'') = flatten_arguments E action ps' (decoded_remainder E remainder0)
          in Some (invoke_and_render E action (Bound action) remainder' ps'' ctx6))"
proof -
  have ctx: "context_before_validation E action ps remainder0 ctx0 =
     (let ctx1 = ctx0\<lparr>validation := new_validation_status\<rparr>;
          resp_headers = headers (tg_response ctx1);
          ctx2 = (if resp_headers ''Content-Type'' = None \<or> resp_headers ''Content-Type'' = Some []
                  then ctx1\<lparr>tg_response :=
                         (tg_response ctx1)\<lparr>headers := resp_headers(''Content-Type'' := None)\<rparr>\<rparr>
                  else ctx1);
          remainder = decoded_remainder E remainder0;
          ctx3 = hooks_notify ''before_validate'' (ArgsValidate remainder ps) action ctx2;
          validate_params = get_params_with_argspec E action ps remainder
      in ctx3\<lparr>args_params := Some validate_params,
              log := log ctx3 @ [GetParams action ps remainder]\<rparr>)"
    by (simp add: context_before_validation_def Let_def hooks_notify_def)
  show ?thesis
    unfolding ctx unfolding call_def Let_def decoded_remainder_def ..
qed

lemma call_on_failure:
  assumes "perform_validate E action
             (get_params_with_argspec E action ps (decoded_remainder E remainder0))
             (context_before_validation E action ps remainder0 ctx0)
           = (Inl (ValidationErr invalid), ctx5)"
  shows "call E action ps remainder0 ctx0 =
     (case chain_loop E (get_params_with_argspec E action ps (decoded_remainder E remainder0))
             (decoded_remainder E remainder0)
             (fst (process_validation_errors action (decoded_remainder E remainder0) ps invalid ctx5))
             ps
             (snd (process_validation_errors action (decoded_remainder E remainder0) ps invalid ctx5)) of
        None \<Rightarrow> None
      | Some (Inl e, ctx7) \<Rightarrow> Some (Inl e, ctx7)
      | Some (Inr (inst, handler, ps'), ctx7) \<Rightarrow>
          Some (invoke_and_render E handler (Partial handler inst)
                  (decoded_remainder E remainder0) ps' ctx7))"
  by (subst call_unfold) (simp add: assms split_beta)

lemma call_handler_valid:
  assumes "perform_validate E action
             (get_params_with_argspec E action ps (decoded_remainder E remainder0))
             (context_before_validation E action ps remainder0 ctx0)
           = (Inl (ValidationErr invalid), ctx5)"
    and "process_validation_errors action (decoded_remainder E remainder0) ps invalid ctx5
           = ((inst, handler, True), ctx6)"
    and "perform_validate E handler
             (get_params_with_argspec E action ps (decoded_remainder E remainder0)) ctx6
           = (Inr ps', ctx7)"
  shows "call E action ps remainder0 ctx0
           = Some (invoke_and_render E handler (Partial handler inst)
                     (decoded_remainder E remainder0) ps' ctx7)"
  by (simp add: call_on_failure [OF assms(1)] assms(2) chain_loop_valid [OF assms(3)])

lemma call_handler_invalid:
  assumes "perform_validate E action
             (get_params_with_argspec E action ps (decoded_remainder E remainder0))
             (context_before_validation E action ps remainder0 ctx0)
           = (Inl (ValidationErr invalid), ctx5)"
    and "process_validation_errors action (decoded_remainder E remainder0) ps invalid ctx5
           = ((inst, handler, True), ctx6)"
    and "perform_validate E handler
             (get_params_with_argspec E action ps (decoded_remainder E remainder0)) ctx6
           = (Inl (ValidationErr invalid'), ctx7)"
    and "process_validation_errors handler (decoded_remainder E remainder0) ps invalid' ctx7
           = ((inst', handler', False), ctx8)"
  shows "call E action ps remainder0 ctx0
           = Some (invoke_and_render E handler' (Partial handler' inst')
                     (decoded_remainder E remainder0) ps ctx8)"
  by (simp add: call_on_failure [OF assms(1)] assms(2) chain_loop_invalid [OF assms(3)] assms(4)
        chain_loop_stop)

lemma example_dispatch:
  "map_option (\<lambda>r. (fst r, log (snd r))) (call example_env (Method 7 0) Map.empty None idle_context)
     = Some (Inr (PyStr ''form''),
        [Notify ''before_validate'' (ArgsValidate [] Map.empty) (Method 7 0),
         GetParams (Method 7 0) Map.empty [],
         Check 0 (Method 7 0) [''argspec_of'' \<mapsto> PyInt 0],
         Check 1 (Function 1) [''argspec_of'' \<mapsto> PyInt 0],
         Notify ''before_call'' (ArgsValidate [] [''argspec_of'' \<mapsto> PyInt 0]) (Function 1),
         Caller (Function 1) (Partial (Function 1) (Some 7)) [] [''argspec_of'' \<mapsto> PyInt 0],
         Notify ''before_render'' (ArgsRender [] [''argspec_of'' \<mapsto> PyInt 0] (PyStr ''form''))
           (Function 1),
         Notify ''after_render''
           (ArgsResponse \<lparr>response = PyStr ''form'', content_type = Some ''application/json'',
                           engine_name = Some ''json'', template_name = None\<rparr>)
           (Function 1)])"
  by (simp add: call_def Let_def example_env_def idle_context_def new_validation_status_def
        hooks_notify_def perform_validate_def process_validation_errors_def chain_loop.simps
        invoke_and_render_def render_response_def)

text \<open>
  Claim C1, as amended. When validation fails and the error handler asks for chained
  validation, the orchestrator re-runs only the validation (step 6), against the error
  handler and on the parameters that were merged for the original method: the loop
  ends at once when the chain flag is false, ends with the cleaned parameters when the
  handler's validation succeeds, and goes on with the classifier's new handler and
  flag when it fails; the loop makes no call but the checks of intents, and a dispatch
  that returns has notified \<^verbatim>\<open>before_validate\<close> once and merged the parameters once, both
  for the original method. A dispatch in which the validation of the method fails is
  the run of this loop from the classifier's answer, on the parameters merged for the
  method, followed by the invocation of the last handler: when the first handler's
  validation of those parameters succeeds, the handler is invoked with what that
  validation returned; when it fails and the classifier asks for no further chaining,
  the handler it names is invoked with the request's parameters.
\<close>

theorem chained_validation_revalidates_only:
  "chain_loop E validate_params remainder (inst, handler, False) ps ctx
     = Some (Inr (inst, handler, ps), ctx)
   \<and> (perform_validate E handler validate_params ctx = (Inr ps', ctx1) \<longrightarrow>
        chain_loop E validate_params remainder (inst, handler, True) ps ctx
          = Some (Inr (inst, handler, ps'), ctx1))
   \<and> (perform_validate E handler validate_params ctx = (Inl (ValidationErr invalid), ctx2) \<longrightarrow>
        chain_loop E validate_params remainder (inst, handler, True) ps ctx
          = chain_loop E validate_params remainder
              (fst (process_validation_errors handler remainder ps invalid ctx2)) ps
              (snd (process_validation_errors handler remainder ps invalid ctx2)))
   \<and> (chain_loop E validate_params remainder st ps ctx = Some res \<longrightarrow>
        (\<exists>evs. log (snd res) = log ctx @ evs \<and> (\<forall>e \<in> set evs. is_check e)))
   \<and> (call E action ps0 remainder0 ctx0 = Some res0 \<longrightarrow>
        filter prepares_validation (log (snd res0))
          = filter prepares_validation (log ctx0)
            @ [Notify ''before_validate''
                 (ArgsValidate (case remainder0 of None \<Rightarrow> [] | Some segs \<Rightarrow> map (url2pathname E) segs) ps0)
                 action,
               GetParams action ps0
                 (case remainder0 of None \<Rightarrow> [] | Some segs \<Rightarrow> map (url2pathname E) segs)])
   \<and> (perform_validate E action
           (get_params_with_argspec E action ps0 (decoded_remainder E remainder0))
           (context_before_validation E action ps0 remainder0 ctx0)
         = (Inl (ValidationErr invalid0), ctx5) \<longrightarrow>
        call E action ps0 remainder0 ctx0
          = (case chain_loop E
                    (get_params_with_argspec E action ps0 (decoded_remainder E remainder0))
                    (decoded_remainder E remainder0)
                    (fst (process_validation_errors action (decoded_remainder E remainder0) ps0
                            invalid0 ctx5))
                    ps0
                    (snd (process_validation_errors action (decoded_remainder E remainder0) ps0
                            invalid0 ctx5)) of
               None \<Rightarrow> None
             | Some (Inl e, ctx') \<Rightarrow> Some (Inl e, ctx')
             | Some (Inr (inst', handler', ps''), ctx') \<Rightarrow>
                 Some (invoke_and_render E handler' (Partial handler' inst')
                         (decoded_remainder E remainder0) ps'' ctx'))
        \<and> (process_validation_errors action (decoded_remainder E remainder0) ps0 invalid0 ctx5
               = ((inst1, handler1, True), ctx6) \<longrightarrow>
             (perform_validate E handler1
                 (get_params_with_argspec E action ps0 (decoded_remainder E remainder0)) ctx6
               = (Inr ps1, ctx7) \<longrightarrow>
              call E action ps0 remainder0 ctx0
                = Some (invoke_and_render E handler1 (Partial handler1 inst1)
                          (decoded_remainder E remainder0) ps1 ctx7))
             \<and> (perform_validate E handler1
                   (get_params_with_argspec E action ps0 (decoded_remainder E remainder0)) ctx6
                 = (Inl (ValidationErr invalid1), ctx7) \<longrightarrow>
                process_validation_errors handler1 (decoded_remainder E remainder0) ps0 invalid1 ctx7
                 = ((inst2, handler2, False), ctx8) \<longrightarrow>
                call E action ps0 remainder0 ctx0
                  = Some (invoke_and_render E handler2 (Partial handler2 inst2)
                            (decoded_remainder E remainder0) ps0 ctx8))))"
proof (intro conjI impI)
  show "chain_loop E validate_params remainder (inst, handler, False) ps ctx
          = Some (Inr (inst, handler, ps), ctx)"
    by (rule chain_loop_stop)
next
  assume "perform_validate E handler validate_params ctx = (Inr ps', ctx1)"
  then show "chain_loop E validate_params remainder (inst, handler, True) ps ctx
               = Some (Inr (inst, handler, ps'), ctx1)"
    by (rule chain_loop_valid)
next
  assume "perform_validate E handler validate_params ctx = (Inl (ValidationErr invalid), ctx2)"
  then show "chain_loop E validate_params remainder (inst, handler, True) ps ctx
          = chain_loop E validate_params remainder
              (fst (process_validation_errors handler remainder ps invalid ctx2)) ps
              (snd (process_validation_errors handler remainder ps invalid ctx2))"
    by (rule chain_loop_invalid)
next
  assume "chain_loop E validate_params remainder st ps ctx = Some res"
  then have "only_checks (log ctx) (log (snd res))" by (rule chain_loop_log)
  then show "\<exists>evs. log (snd res) = log ctx @ evs \<and> (\<forall>e \<in> set evs. is_check e)"
    by (simp add: only_checks_def)
next
  assume "call E action ps0 remainder0 ctx0 = Some res0"
  then show "filter prepares_validation (log (snd res0))
          = filter prepares_validation (log ctx0)
            @ [Notify ''before_validate''
                 (ArgsValidate (case remainder0 of None \<Rightarrow> [] | Some segs \<Rightarrow> map (url2pathname E) segs) ps0)
                 action,
               GetParams action ps0
                 (case remainder0 of None \<Rightarrow> [] | Some segs \<Rightarrow> map (url2pathname E) segs)]"
    by (rule call_log)
next
  assume "perform_validate E action
           (get_params_with_argspec E action ps0 (decoded_remainder E remainder0))
           (context_before_validation E action ps0 remainder0 ctx0)
         = (Inl (ValidationErr invalid0), ctx5)"
  then show "call E action ps0 remainder0 ctx0
          = (case chain_loop E
                    (get_params_with_argspec E action ps0 (decoded_remainder E remainder0))
                    (decoded_remainder E remainder0)
                    (fst (process_validation_errors action (decoded_remainder E remainder0) ps0
                            invalid0 ctx5))
                    ps0
                    (snd (process_validation_errors action (decoded_remainder E remainder0) ps0
                            invalid0 ctx5)) of
               None \<Rightarrow> None
             | Some (Inl e, ctx') \<Rightarrow> Some (Inl e, ctx')
             | Some (Inr (inst', handler', ps''), ctx') \<Rightarrow>
                 Some (invoke_and_render E handler' (Partial handler' inst')
                         (decoded_remainder E remainder0) ps'' ctx'))"
    by (rule call_on_failure)
next
  assume "perform_validate E action
           (get_params_with_argspec E action ps0 (decoded_remainder E remainder0))
           (context_before_validation E action ps0 remainder0 ctx0)
         = (Inl (ValidationErr invalid0), ctx5)"
    and "process_validation_errors action (decoded_remainder E remainder0) ps0 invalid0 ctx5
               = ((inst1, handler1, True), ctx6)"
    and "perform_validate E handler1
                 (get_params_with_argspec E action ps0 (decoded_remainder E remainder0)) ctx6
               = (Inr ps1, ctx7)"
  then show "call E action ps0 remainder0 ctx0
                = Some (invoke_and_render E handler1 (Partial handler1 inst1)
                          (decoded_remainder E remainder0) ps1 ctx7)"
    by (rule call_handler_valid)
next
  assume "perform_validate E action
           (get_params_with_argspec E action ps0 (decoded_remainder E remainder0))
           (context_before_validation E action ps0 remainder0 ctx0)
         = (Inl (ValidationErr invalid0), ctx5)"
    and "process_validation_errors action (decoded_remainder E remainder0) ps0 invalid0 ctx5
               = ((inst1, handler1, True), ctx6)"
    and "perform_validate E handler1
                   (get_params_with_argspec E action ps0 (decoded_remainder E remainder0)) ctx6
                 = (Inl (ValidationErr invalid1), ctx7)"
    and "process_validation_errors handler1 (decoded_remainder E remainder0) ps0 invalid1 ctx7
                 = ((inst2, handler2, False), ctx8)"
  then show "call E action ps0 remainder0 ctx0
                  = Some (invoke_and_render E handler2 (Partial handler2 inst2)
                            (decoded_remainder E remainder0) ps0 ctx8)"
    by (rule call_handler_invalid)
qed

text \<open>
  The amended claim C1 on the example: the validation of function 0 fails and chains to
  function 1, whose validation succeeds, so function 1 is invoked with the parameters
  that its validation returned; the validation of function 4 fails and chains to
  function 5, whose validation fails without further chaining, so function 5 is
  invoked with the request's parameters.
\<close>

theorem chained_validation_revalidates_only_witness:
  "perform_validate example_env (Function 1) [''argspec_of'' \<mapsto> PyInt 0] idle_context
     = (Inr [''argspec_of'' \<mapsto> PyInt 0],
        snd (perform_validate example_env (Function 1) [''argspec_of'' \<mapsto> PyInt 0] idle_context))
   \<and> chain_loop example_env [''argspec_of'' \<mapsto> PyInt 0] [] (Some 7, Function 1, True) Map.empty
         idle_context
       = Some (Inr (Some 7, Function 1, [''argspec_of'' \<mapsto> PyInt 0]),
               snd (perform_validate example_env (Function 1) [''argspec_of'' \<mapsto> PyInt 0] idle_context))
   \<and> perform_validate example_env (Method 7 0) [''argspec_of'' \<mapsto> PyInt 0] idle_context
       = (Inl (ValidationErr (Invalid ''a: bad'' None)),
          snd (perform_validate example_env (Method 7 0) [''argspec_of'' \<mapsto> PyInt 0] idle_context))
   \<and> chain_loop example_env [''argspec_of'' \<mapsto> PyInt 0] [] (Some 7, Method 7 0, True) Map.empty
         idle_context
       = chain_loop example_env [''argspec_of'' \<mapsto> PyInt 0] [] (Some 7, Function 1, True) Map.empty
           (snd (process_validation_errors (Method 7 0) [] Map.empty (Invalid ''a: bad'' None)
              (snd (perform_validate example_env (Method 7 0) [''argspec_of'' \<mapsto> PyInt 0]
                 idle_context))))
   \<and> list_all is_check
         (log (snd (perform_validate example_env (Function 1) [''argspec_of'' \<mapsto> PyInt 0]
            idle_context)))
   \<and> call example_env (Method 7 0) Map.empty None idle_context
       = Some (the (call example_env (Method 7 0) Map.empty None idle_context))
   \<and> filter prepares_validation
         (log (snd (the (call example_env (Method 7 0) Map.empty None idle_context))))
       = [Notify ''before_validate'' (ArgsValidate [] Map.empty) (Method 7 0),
          GetParams (Method 7 0) Map.empty []]
   \<and> perform_validate example_env (Method 7 0) [''argspec_of'' \<mapsto> PyInt 0]
         (context_before_validation example_env (Method 7 0) Map.empty None idle_context)
       = (Inl (ValidationErr (Invalid ''a: bad'' None)),
          snd (perform_validate example_env (Method 7 0) [''argspec_of'' \<mapsto> PyInt 0]
                 (context_before_validation example_env (Method 7 0) Map.empty None idle_context)))
   \<and> fst (process_validation_errors (Method 7 0) [] Map.empty (Invalid ''a: bad'' None)
         (snd (perform_validate example_env (Method 7 0) [''argspec_of'' \<mapsto> PyInt 0]
                 (context_before_validation example_env (Method 7 0) Map.empty None idle_context))))
       = (Some 7, Function 1, True)
   \<and> call example_env (Method 7 0) Map.empty None idle_context
       = Some (invoke_and_render example_env (Function 1) (Partial (Function 1) (Some 7)) []
                 [''argspec_of'' \<mapsto> PyInt 0]
                 (snd (perform_validate example_env (Function 1) [''argspec_of'' \<mapsto> PyInt 0]
                   (snd (process_validation_errors (Method 7 0) [] Map.empty (Invalid ''a: bad'' None)
                     (snd (perform_validate example_env (Method 7 0) [''argspec_of'' \<mapsto> PyInt 0]
                       (context_before_validation example_env (Method 7 0) Map.empty None
                          idle_context))))))))
   \<and> call example_env (Method 7 4) Map.empty None idle_context
       = Some (invoke_and_render example_env (Function 5) (Partial (Function 5) None) [] Map.empty
                 (snd (process_validation_errors (Function 5) [] Map.empty
                         (Invalid (''a: bad'' @ [CHR 0x0A] @ ''b: bad2'') None)
                   (snd (perform_validate example_env (Function 5) [''argspec_of'' \<mapsto> PyInt 4]
                     (snd (process_validation_errors (Method 7 4) [] Map.empty (Invalid ''c: old'' None)
                       (snd (perform_validate example_env (Method 7 4) [''argspec_of'' \<mapsto> PyInt 4]
                         (context_before_validation example_env (Method 7 4) Map.empty None
                            idle_context))))))))))"
proof -
  let ?vp = "[''argspec_of'' \<mapsto> PyInt 0]"
  let ?vp4 = "[''argspec_of'' \<mapsto> PyInt 4]"
  have v1: "perform_validate example_env (Function 1) ?vp idle_context
     = (Inr ?vp, snd (perform_validate example_env (Function 1) ?vp idle_context))"
    by (simp add: perform_validate_def example_env_def Let_def)
  have v0: "perform_validate example_env (Method 7 0) ?vp idle_context
       = (Inl (ValidationErr (Invalid ''a: bad'' None)),
          snd (perform_validate example_env (Method 7 0) ?vp idle_context))"
    by (simp add: perform_validate_def example_env_def Let_def)
  have c0: "fst (process_validation_errors (Method 7 0) [] Map.empty (Invalid ''a: bad'' None)
              (snd (perform_validate example_env (Method 7 0) ?vp idle_context)))
            = (Some 7, Function 1, True)"
    by (simp add: perform_validate_def example_env_def Let_def process_validation_errors_def)
  have d: "call example_env (Method 7 0) Map.empty None idle_context
       = Some (the (call example_env (Method 7 0) Map.empty None idle_context))"
    using example_dispatch by (cases "call example_env (Method 7 0) Map.empty None idle_context") simp_all
  have l0: "log idle_context = []" by (simp add: idle_context_def)
  have rem: "decoded_remainder example_env None = []" by (simp add: decoded_remainder_def)
  have m0: "get_params_with_argspec example_env (Method 7 0) Map.empty [] = ?vp"
    and m4: "get_params_with_argspec example_env (Method 7 4) Map.empty [] = ?vp4"
    by (simp_all add: example_env_def)
  define c4 where "c4 = context_before_validation example_env (Method 7 0) Map.empty None idle_context"
  define c5 where "c5 = snd (perform_validate example_env (Method 7 0) ?vp c4)"
  define c6 where "c6 = snd (process_validation_errors (Method 7 0) [] Map.empty (Invalid ''a: bad'' None) c5)"
  define c7 where "c7 = snd (perform_validate example_env (Function 1) ?vp c6)"
  have a1: "perform_validate example_env (Method 7 0) ?vp c4
              = (Inl (ValidationErr (Invalid ''a: bad'' None)), c5)"
    by (simp add: c5_def perform_validate_def example_env_def Let_def)
  have a2: "process_validation_errors (Method 7 0) [] Map.empty (Invalid ''a: bad'' None) c5
              = ((Some 7, Function 1, True), c6)"
    by (simp add: c6_def c5_def perform_validate_def example_env_def Let_def
          process_validation_errors_def)
  have a3: "perform_validate example_env (Function 1) ?vp c6 = (Inr ?vp, c7)"
    by (simp add: c7_def perform_validate_def example_env_def Let_def)
  define e4 where "e4 = context_before_validation example_env (Method 7 4) Map.empty None idle_context"
  define e5 where "e5 = snd (perform_validate example_env (Method 7 4) ?vp4 e4)"
  define e6 where "e6 = snd (process_validation_errors (Method 7 4) [] Map.empty (Invalid ''c: old'' None) e5)"
  define e7 where "e7 = snd (perform_validate example_env (Function 5) ?vp4 e6)"
  define e8 where "e8 = snd (process_validation_errors (Function 5) [] Map.empty
                         (Invalid (''a: bad'' @ [CHR 0x0A] @ ''b: bad2'') None) e7)"
  have b1: "perform_validate example_env (Method 7 4) ?vp4 e4
              = (Inl (ValidationErr (Invalid ''c: old'' None)), e5)"
    by (simp add: e5_def perform_validate_def example_env_def Let_def)
  have b2: "process_validation_errors (Method 7 4) [] Map.empty (Invalid ''c: old'' None) e5
              = ((Some 7, Function 5, True), e6)"
    by (simp add: e6_def e5_def perform_validate_def example_env_def Let_def
          process_validation_errors_def)
  have b3: "perform_validate example_env (Function 5) ?vp4 e6
              = (Inl (ValidationErr (Invalid (''a: bad'' @ [CHR 0x0A] @ ''b: bad2'') None)), e7)"
    by (simp add: e7_def perform_validate_def example_env_def Let_def)
  have b4: "process_validation_errors (Function 5) [] Map.empty
              (Invalid (''a: bad'' @ [CHR 0x0A] @ ''b: bad2'') None) e7
              = ((None, Function 5, False), e8)"
    by (simp add: e8_def e7_def perform_validate_def example_env_def Let_def
          process_validation_errors_def)
  note general = chained_validation_revalidates_only
    [where E = example_env and validate_params = ?vp and remainder = "[]" and inst = "Some 7"
       and ps = Map.empty and ctx = idle_context and action = "Method 7 0" and ?ps0.0 = Map.empty
       and ?remainder0.0 = None and ?ctx0.0 = idle_context
       and ?res0.0 = "the (call example_env (Method 7 0) Map.empty None idle_context)"
       and st = "(Some 7, Function 1, True)"
       and res = "(Inr (Some 7, Function 1, ?vp),
                   snd (perform_validate example_env (Function 1) ?vp idle_context))"]
  from general [where handler = "Function 1" and ps' = ?vp
      and ?ctx1.0 = "snd (perform_validate example_env (Function 1) ?vp idle_context)"] v1
  have w1: "chain_loop example_env ?vp [] (Some 7, Function 1, True) Map.empty idle_context
       = Some (Inr (Some 7, Function 1, ?vp),
               snd (perform_validate example_env (Function 1) ?vp idle_context))"
    by blast
  from general [where handler = "Method 7 0" and invalid = "Invalid ''a: bad'' None"
      and ?ctx2.0 = "snd (perform_validate example_env (Method 7 0) ?vp idle_context)"] v0
  have w2: "chain_loop example_env ?vp [] (Some 7, Method 7 0, True) Map.empty idle_context
       = chain_loop example_env ?vp []
           (fst (process_validation_errors (Method 7 0) [] Map.empty (Invalid ''a: bad'' None)
              (snd (perform_validate example_env (Method 7 0) ?vp idle_context)))) Map.empty
           (snd (process_validation_errors (Method 7 0) [] Map.empty (Invalid ''a: bad'' None)
              (snd (perform_validate example_env (Method 7 0) ?vp idle_context))))"
    by blast
  from general [where handler = "Function 1"] d
  have w3: "filter prepares_validation
         (log (snd (the (call example_env (Method 7 0) Map.empty None idle_context))))
       = [Notify ''before_validate'' (ArgsValidate [] Map.empty) (Method 7 0),
          GetParams (Method 7 0) Map.empty []]"
    by (simp add: l0)
  from general [where handler = "Function 1"] w1 l0
  have w4: "list_all is_check
         (log (snd (perform_validate example_env (Function 1) ?vp idle_context)))"
    by (auto simp: list_all_iff)
  let ?R = "decoded_remainder example_env None"
  let ?VP = "get_params_with_argspec example_env (Method 7 0) Map.empty ?R"
  let ?VP4 = "get_params_with_argspec example_env (Method 7 4) Map.empty ?R"
  have g1: "perform_validate example_env (Method 7 0) ?VP
              (context_before_validation example_env (Method 7 0) Map.empty None idle_context)
            = (Inl (ValidationErr (Invalid ''a: bad'' None)), c5)"
    and g2: "process_validation_errors (Method 7 0) ?R Map.empty (Invalid ''a: bad'' None) c5
            = ((Some 7, Function 1, True), c6)"
    and g3: "perform_validate example_env (Function 1) ?VP c6 = (Inr ?vp, c7)"
    using a1 a2 a3 by (simp_all only: rem m0 c4_def)
  from general [where handler = "Function 1" and ?invalid0.0 = "Invalid ''a: bad'' None"
      and ?ctx5.0 = c5 and ?inst1.0 = "Some 7" and ?handler1.0 = "Function 1" and ?ctx6.0 = c6
      and ?ps1.0 = ?vp and ?ctx7.0 = c7] g1 g2 g3
  have "call example_env (Method 7 0) Map.empty None idle_context
       = Some (invoke_and_render example_env (Function 1) (Partial (Function 1) (Some 7)) ?R ?vp c7)"
    by blast
  then have w5: "call example_env (Method 7 0) Map.empty None idle_context
       = Some (invoke_and_render example_env (Function 1) (Partial (Function 1) (Some 7)) [] ?vp c7)"
    by (simp only: rem)
  have h1: "perform_validate example_env (Method 7 4) ?VP4
              (context_before_validation example_env (Method 7 4) Map.empty None idle_context)
            = (Inl (ValidationErr (Invalid ''c: old'' None)), e5)"
    and h2: "process_validation_errors (Method 7 4) ?R Map.empty (Invalid ''c: old'' None) e5
            = ((Some 7, Function 5, True), e6)"
    and h3: "perform_validate example_env (Function 5) ?VP4 e6
              = (Inl (ValidationErr (Invalid (''a: bad'' @ [CHR 0x0A] @ ''b: bad2'') None)), e7)"
    and h4: "process_validation_errors (Function 5) ?R Map.empty
              (Invalid (''a: bad'' @ [CHR 0x0A] @ ''b: bad2'') None) e7
              = ((None, Function 5, False), e8)"
    using b1 b2 b3 b4 by (simp_all only: rem m4 e4_def)
  from chained_validation_revalidates_only
    [where E = example_env and action = "Method 7 4" and ?ps0.0 = Map.empty
       and ?remainder0.0 = None and ?ctx0.0 = idle_context
       and ?invalid0.0 = "Invalid ''c: old'' None" and ?ctx5.0 = e5 and ?inst1.0 = "Some 7"
       and ?handler1.0 = "Function 5" and ?ctx6.0 = e6
       and ?invalid1.0 = "Invalid (''a: bad'' @ [CHR 0x0A] @ ''b: bad2'') None" and ?ctx7.0 = e7
       and ?inst2.0 = None and ?handler2.0 = "Function 5" and ?ctx8.0 = e8] h1 h2 h3 h4
  have "call example_env (Method 7 4) Map.empty None idle_context
       = Some (invoke_and_render example_env (Function 5) (Partial (Function 5) None) ?R Map.empty e8)"
    by blast
  then have w6: "call example_env (Method 7 4) Map.empty None idle_context
       = Some (invoke_and_render example_env (Function 5) (Partial (Function 5) None) [] Map.empty e8)"
    by (simp only: rem)
  from a2 have a2': "fst (process_validation_errors (Method 7 0) [] Map.empty
      (Invalid ''a: bad'' None) c5) = (Some 7, Function 1, True)" by simp
  from v1 w1 v0 w2 c0 w4 d w3 a1 a2' w5 w6 show ?thesis
    unfolding c4_def c5_def c6_def c7_def e4_def e5_def e6_def e7_def e8_def by simp
qed

text \<open>
  Claim C1 as stated fails: in this dispatch the validation of the method fails, the
  handler (function 1) asks for chained validation and is validated (intent 1 is
  checked, on the parameters merged for function 0), yet \<^verbatim>\<open>before_validate\<close> is notified
  for the method alone and the parameters are merged for the method alone.
\<close>

theorem chained_validation_counterexample:
  "map_option (log \<circ> snd) (call example_env (Method 7 0) Map.empty None idle_context)
     = Some [Notify ''before_validate'' (ArgsValidate [] Map.empty) (Method 7 0),
             GetParams (Method 7 0) Map.empty [],
             Check 0 (Method 7 0) [''argspec_of'' \<mapsto> PyInt 0],
             Check 1 (Function 1) [''argspec_of'' \<mapsto> PyInt 0],
             Notify ''before_call'' (ArgsValidate [] [''argspec_of'' \<mapsto> PyInt 0]) (Function 1),
             Caller (Function 1) (Partial (Function 1) (Some 7)) [] [''argspec_of'' \<mapsto> PyInt 0],
             Notify ''before_render'' (ArgsRender [] [''argspec_of'' \<mapsto> PyInt 0] (PyStr ''form''))
               (Function 1),
             Notify ''after_render''
               (ArgsResponse \<lparr>response = PyStr ''form'', content_type = Some ''application/json'',
                               engine_name = Some ''json'', template_name = None\<rparr>)
               (Function 1)]"
  using example_dispatch
  by (cases "call example_env (Method 7 0) Map.empty None idle_context") simp_all

end
